theory Spec2Isabelle
  imports Complex_Main "HOL-Library.Sublist"
begin

section \<open>JavaScript values used by the service layer\<close>

subsection \<open>Strings\<close>

text \<open>
  A JavaScript string is a sequence of UTF-16 code units, here natural numbers. \<open>str\<close>
  gives the code units of an ASCII literal.
\<close>

type_synonym jsstring = "nat list"

definition str :: "string \<Rightarrow> jsstring" where
  "str s = map of_char s"

text \<open>\<^verbatim>\<open>s.includes(t)\<close>: \<open>t\<close> occurs in \<open>s\<close> as a contiguous run of code units.\<close>

primrec includes_str :: "jsstring \<Rightarrow> jsstring \<Rightarrow> bool" where
  "includes_str [] t = (t = [])"
| "includes_str (c # cs) t = (prefix t (c # cs) \<or> includes_str cs t)"

text \<open>
  \<^verbatim>\<open>String.prototype.toLowerCase\<close> is a built-in of the runtime that follows the case
  mapping tables of Unicode. The functions that call it take it as their first argument,
  named \<open>toLowerCase\<close>. What is known of it here is its value on ASCII strings: it maps
  the letters A to Z to a to z and leaves every other ASCII character as it is.
\<close>

definition ascii_lower :: "jsstring \<Rightarrow> jsstring" where
  "ascii_lower s = map (\<lambda>u. if 65 \<le> u \<and> u \<le> 90 then u + 32 else u) s"

definition lowers_ascii :: "(jsstring \<Rightarrow> jsstring) \<Rightarrow> bool" where
  "lowers_ascii toLowerCase =
     (\<forall>s. (\<forall>u \<in> set s. u < 128) \<longrightarrow> toLowerCase s = ascii_lower s)"

text \<open>Decimal rendering of a status code inside a template literal.\<close>

function string_of_nat :: "nat \<Rightarrow> jsstring" where
  "string_of_nat n =
     (if n < 10 then [48 + n]
      else string_of_nat (n div 10) @ [48 + n mod 10])"
  by pat_completeness auto
termination
  by (relation "measure id") auto

declare string_of_nat.simps [simp del]

subsection \<open>Errors\<close>

text \<open>
  A raised JavaScript error is its constructor together with its message text.
  \<^verbatim>\<open>fetch\<close> rejects with a \<^verbatim>\<open>TypeError\<close>; \<^verbatim>\<open>response.json()\<close> rejects with a
  \<^verbatim>\<open>TypeError\<close> when the body cannot be read and with a \<^verbatim>\<open>SyntaxError\<close> when it
  is not JSON; the service itself raises plain \<^verbatim>\<open>Error\<close>s.
\<close>

datatype js_error = Error jsstring | TypeError jsstring | SyntaxError jsstring

fun message :: "js_error \<Rightarrow> jsstring" where
  "message (Error m) = m"
| "message (TypeError m) = m"
| "message (SyntaxError m) = m"

text \<open>
  Reading a property of \<^verbatim>\<open>null\<close> raises a \<^verbatim>\<open>TypeError\<close>. The text of its message
  is the engine's own; this is the wording of V8.
\<close>

definition null_read_error :: "jsstring \<Rightarrow> js_error" where
  "null_read_error property =
     TypeError (str ''Cannot read properties of null (reading '' @ [39] @ property @ [39] @ str '')'')"

subsection \<open>Numbers\<close>

text \<open>
  The page and limit arguments are integer-valued Numbers and are modelled as
  \<^typ>\<open>int\<close>. The quotient \<^verbatim>\<open>Math.ceil(a / b)\<close> can leave the integers, so its result
  lives in \<open>jsnum\<close>.
\<close>

datatype jsnum = Finite int | Infinity | NaN

text \<open>\<^verbatim>\<open>a || b\<close> on Numbers: \<^verbatim>\<open>0\<close> and \<^verbatim>\<open>NaN\<close> are falsy.\<close>

fun js_or :: "jsnum \<Rightarrow> jsnum \<Rightarrow> jsnum" where
  "js_or (Finite n) b = (if n = 0 then b else Finite n)"
| "js_or Infinity b = Infinity"
| "js_or NaN b = b"

text \<open>\<^verbatim>\<open>a < b\<close> on Numbers: every comparison with \<^verbatim>\<open>NaN\<close> is false.\<close>

fun js_less :: "jsnum \<Rightarrow> jsnum \<Rightarrow> bool" where
  "js_less (Finite a) (Finite b) = (a < b)"
| "js_less (Finite a) Infinity = True"
| "js_less Infinity b = False"
| "js_less NaN b = False"
| "js_less a NaN = False"

text \<open>
  \<^verbatim>\<open>Math.ceil(a / b)\<close> for an array length \<open>a\<close> and an integer \<open>b\<close>. Division by zero
  gives \<^verbatim>\<open>Infinity\<close> (or \<^verbatim>\<open>NaN\<close> for \<^verbatim>\<open>0 / 0\<close>).
\<close>

definition Math_ceil_div :: "nat \<Rightarrow> int \<Rightarrow> jsnum" where
  "Math_ceil_div a b =
     (if b = 0 then (if a = 0 then NaN else Infinity)
      else Finite (- ((- int a) div b)))"

text \<open>
  \<^verbatim>\<open>Array.prototype.slice(start, end)\<close>: a negative index counts from the end, and both
  indices are clamped to the array.
\<close>

definition slice :: "'a list \<Rightarrow> int \<Rightarrow> int \<Rightarrow> 'a list" where
  "slice xs start end' =
     (let len = int (length xs);
          k = (if start < 0 then max (len + start) 0 else min start len);
          final = (if end' < 0 then max (len + end') 0 else min end' len)
      in take (nat (final - k)) (drop (nat k) xs))"

subsection \<open>parseInt\<close>

text \<open>
  \<^verbatim>\<open>parseInt(string)\<close> with no radix argument: skip leading white space and line
  terminators, read an optional sign, switch to radix 16 after a \<^verbatim>\<open>0x\<close> or \<^verbatim>\<open>0X\<close>
  prefix, then read the longest run of digits of the radix and ignore whatever follows.
  No digit at all gives \<^verbatim>\<open>NaN\<close>. The white space of the language is TAB, VT, FF, the
  byte order mark and every space separator of Unicode; its line terminators are LF, CR,
  LS and PS.
\<close>

definition is_white_space :: "nat \<Rightarrow> bool" where
  "is_white_space u =
     (u \<in> {9, 10, 11, 12, 13, 32, 160, 5760, 8232, 8233, 8239, 8287, 12288, 65279}
      \<or> (8192 \<le> u \<and> u \<le> 8202))"

definition digit_value :: "nat \<Rightarrow> nat" where
  "digit_value u =
     (if 48 \<le> u \<and> u \<le> 57 then u - 48
      else if 97 \<le> u \<and> u \<le> 122 then u - 87
      else if 65 \<le> u \<and> u \<le> 90 then u - 55
      else 36)"

definition radix_digit :: "nat \<Rightarrow> nat \<Rightarrow> bool" where
  "radix_digit R u = (digit_value u < R)"

definition radix_value :: "nat \<Rightarrow> jsstring \<Rightarrow> int" where
  "radix_value R Z = foldl (\<lambda>acc u. acc * int R + int (digit_value u)) 0 Z"

text \<open>
  The result is a Number. An integer of magnitude up to \<open>2^53\<close> is that Number exactly;
  beyond it the Number is a rounded value or an infinity, of magnitude at least \<open>2^53\<close>,
  which is all that \<open>Rounded\<close> records.
\<close>

datatype parsed_int = Integer int | Rounded | NotANumber

definition parseInt :: "jsstring \<Rightarrow> parsed_int" where
  "parseInt string =
     (let S = dropWhile is_white_space string;
          sign = (if S \<noteq> [] \<and> hd S = 45 then - 1 else 1 :: int);
          S1 = (if S \<noteq> [] \<and> (hd S = 43 \<or> hd S = 45) then tl S else S);
          strip = (prefix (str ''0x'') S1 \<or> prefix (str ''0X'') S1);
          R = (if strip then 16 else 10);
          S2 = (if strip then drop 2 S1 else S1);
          Z = takeWhile (radix_digit R) S2
      in if Z = [] then NotANumber
         else if radix_value R Z \<le> 2 ^ 53 then Integer (sign * radix_value R Z)
         else Rounded)"

section \<open>Data model\<close>

record character =
  id' :: int
  name :: jsstring
  ki :: jsstring
  maxKi :: jsstring
  race :: jsstring
  gender :: jsstring
  description :: jsstring
  image' :: jsstring
  affiliation :: jsstring

record planet =
  planet_id :: int
  planet_name :: jsstring
  isDestroyed :: bool
  planet_description :: jsstring

record page_meta =
  totalItems :: int
  itemCount :: int
  itemsPerPage :: int
  totalPages :: jsnum
  currentPage :: int

record 'a envelope =
  items :: "'a list"
  meta :: page_meta

subsection \<open>The bundled dataset (mockData.js)\<close>

definition goku :: character where
  "goku = \<lparr>id' = 1, name = str ''Goku'', ki = str ''60,000,000'',
     maxKi = str ''90,000,000,000,000,000,000'', race = str ''Saiyan'', gender = str ''Male'',
     description = str ''Goku is a Saiyan warrior originally sent to Earth as an infant to conquer the planet. However, an accident alters his memory, allowing him to grow up to become Earth's greatest defender.'',
     image' = str ''https://dragonball-api.com/characters/goku_normal.webp'',
     affiliation = str ''Z Fighter''\<rparr>"

definition vegeta :: character where
  "vegeta = \<lparr>id' = 2, name = str ''Vegeta'', ki = str ''54,000,000'',
     maxKi = str ''19,400,000,000,000,000,000'', race = str ''Saiyan'', gender = str ''Male'',
     description = str ''Prince of the fallen Saiyan race and one of the main characters of the Dragon Ball series. Originally a villain, he becomes a crucial ally and one of the strongest fighters.'',
     image' = str ''https://dragonball-api.com/characters/vegeta_normal.webp'',
     affiliation = str ''Z Fighter''\<rparr>"

text \<open>
  The description of Piccolo holds one character beyond ASCII, o with macron, the code
  unit 333.
\<close>

definition piccolo :: character where
  "piccolo = \<lparr>id' = 3, name = str ''Piccolo'', ki = str ''2,000,000'',
     maxKi = str ''500,000,000'', race = str ''Namekian'', gender = str ''Male'',
     description = str ''Originally the reincarnation of the evil Piccolo Daima'' @ [333] @ str '', he becomes one of Earth's greatest defenders and Gohan's mentor.'',
     image' = str ''https://dragonball-api.com/characters/piccolo_normal.webp'',
     affiliation = str ''Z Fighter''\<rparr>"

definition gohan :: character where
  "gohan = \<lparr>id' = 4, name = str ''Gohan'', ki = str ''45,000,000'',
     maxKi = str ''40,000,000,000,000,000,000'', race = str ''Half-Saiyan'', gender = str ''Male'',
     description = str ''Goku's eldest son and one of the strongest fighters in the universe. Though preferring peace and studies, he has incredible hidden power.'',
     image' = str ''https://dragonball-api.com/characters/gohan_normal.webp'',
     affiliation = str ''Z Fighter''\<rparr>"

definition frieza :: character where
  "frieza = \<lparr>id' = 5, name = str ''Frieza'', ki = str ''60,000,000'',
     maxKi = str ''1,700,000,000,000,000,000'', race = str ''Frieza Race'', gender = str ''Male'',
     description = str ''The emperor of the universe and one of the most powerful villains in Dragon Ball. Known for his cruelty and incredible transformations.'',
     image' = str ''https://dragonball-api.com/characters/frieza_normal.webp'',
     affiliation = str ''Frieza Force''\<rparr>"

definition cell :: character where
  "cell = \<lparr>id' = 6, name = str ''Cell'', ki = str ''900,000,000'',
     maxKi = str ''2,230,000,000,000,000,000'', race = str ''Android'', gender = str ''Male'',
     description = str ''A bio-android created by Dr. Gero, composed of cells from many fighters including Goku, Vegeta, Piccolo, and Frieza.'',
     image' = str ''https://dragonball-api.com/characters/cell_normal.webp'',
     affiliation = str ''Red Ribbon Army''\<rparr>"

definition mockCharacters :: "character list" where
  "mockCharacters = [goku, vegeta, piccolo, gohan, frieza, cell]"

definition mockPlanets :: "planet list" where
  "mockPlanets =
     [\<lparr>planet_id = 1, planet_name = str ''Earth'', isDestroyed = False,
        planet_description = str ''The home planet of humanity and the main setting for most of Dragon Ball's story.''\<rparr>,
      \<lparr>planet_id = 2, planet_name = str ''Namek'', isDestroyed = True,
        planet_description = str ''The home planet of the Namekians, known for creating the Dragon Balls.''\<rparr>,
      \<lparr>planet_id = 3, planet_name = str ''Vegeta'', isDestroyed = True,
        planet_description = str ''The former home planet of the Saiyan race, destroyed by Frieza.''\<rparr>]"

section \<open>The network\<close>

text \<open>
  One \<^verbatim>\<open>fetch\<close> either rejects (transport failure, with the message of the
  \<^verbatim>\<open>TypeError\<close>) or resolves to a response with a status code, whose body cannot be
  read, is not JSON, or parses. A body that parses is JSON \<^verbatim>\<open>null\<close>, here \<open>None\<close>, or
  has the shape of its endpoint: an envelope for the two list endpoints, a single record
  for \<^verbatim>\<open>/characters/{id}\<close>. JSON values of any other shape are outside the model.
\<close>

datatype 'a body = Unreadable jsstring | Malformed jsstring | Parsed 'a

datatype 'a fetch_outcome = Rejected jsstring | Response nat "'a body"

record network =
  characters_endpoint :: "int \<Rightarrow> int \<Rightarrow> character envelope option fetch_outcome"
  character_endpoint :: "jsstring \<Rightarrow> character option fetch_outcome"
  planets_endpoint :: "planet envelope option fetch_outcome"

text \<open>\<^verbatim>\<open>response.ok\<close>: the status is in the range 200 to 299.\<close>

definition ok :: "nat \<Rightarrow> bool" where
  "ok status = (200 \<le> status \<and> status \<le> 299)"

text \<open>
  The body of every \<^verbatim>\<open>try\<close> block of the service up to \<^verbatim>\<open>await response.json()\<close>:
  the value of \<open>data\<close>, or the error that is thrown to the \<^verbatim>\<open>catch\<close> block.
\<close>

definition fetch_json :: "'a fetch_outcome \<Rightarrow> js_error + 'a" where
  "fetch_json r =
     (case r of
        Rejected m \<Rightarrow> Inl (TypeError m)
      | Response status b \<Rightarrow>
          if \<not> ok status then Inl (Error (str ''HTTP error! status: '' @ string_of_nat status))
          else (case b of
                  Unreadable m \<Rightarrow> Inl (TypeError m)
                | Malformed m \<Rightarrow> Inl (SyntaxError m)
                | Parsed data \<Rightarrow> Inr data))"

section \<open>The service layer (api.js)\<close>

text \<open>
  \<open>getAllCharacters\<close>, \<open>getCharacterById\<close> and \<open>getPlanets\<close> return \<open>data\<close> as it was
  parsed, without looking at it.
\<close>

definition getAllCharacters ::
  "network \<Rightarrow> int \<Rightarrow> int \<Rightarrow> js_error + character envelope option" where
  "getAllCharacters net page limit =
     (case fetch_json (characters_endpoint net page limit) of
        Inr data \<Rightarrow> Inr data
      | Inl e \<Rightarrow>
          (let startIndex = (page - 1) * limit;
               endIndex = startIndex + limit;
               paginatedMockData = slice mockCharacters startIndex endIndex
           in Inr (Some \<lparr>items = paginatedMockData,
                         meta = \<lparr>totalItems = int (length mockCharacters),
                                  itemCount = int (length paginatedMockData),
                                  itemsPerPage = limit,
                                  totalPages = Math_ceil_div (length mockCharacters) limit,
                                  currentPage = page\<rparr>\<rparr>)))"

text \<open>
  \<^verbatim>\<open>char.id === parseInt(id)\<close>: the \<open>id\<close> of a record is an integer far below \<open>2^53\<close>, so
  it is strictly equal to the Number read only when that Number is this integer.
\<close>

definition getCharacterById :: "network \<Rightarrow> jsstring \<Rightarrow> js_error + character option" where
  "getCharacterById net ident =
     (case fetch_json (character_endpoint net ident) of
        Inr data \<Rightarrow> Inr data
      | Inl e \<Rightarrow>
          (case find (\<lambda>char. Integer (id' char) = parseInt ident) mockCharacters of
             Some character \<Rightarrow> Inr (Some character)
           | None \<Rightarrow> Inl (Error (str ''Character not found''))))"

text \<open>
  The two filters of \<^verbatim>\<open>searchCharacters\<close>; an empty string is falsy, so its filter is
  skipped.
\<close>

definition filter_by_name ::
  "(jsstring \<Rightarrow> jsstring) \<Rightarrow> jsstring \<Rightarrow> character list \<Rightarrow> character list" where
  "filter_by_name toLowerCase nm xs =
     (if nm \<noteq> [] then filter (\<lambda>character. includes_str (toLowerCase (name character)) (toLowerCase nm)) xs
      else xs)"

definition filter_by_race ::
  "(jsstring \<Rightarrow> jsstring) \<Rightarrow> jsstring \<Rightarrow> character list \<Rightarrow> character list" where
  "filter_by_race toLowerCase rc xs =
     (if rc \<noteq> [] then filter (\<lambda>character. includes_str (toLowerCase (race character)) (toLowerCase rc)) xs
      else xs)"

text \<open>
  The \<^verbatim>\<open>try\<close> block of \<^verbatim>\<open>searchCharacters\<close>: on \<^verbatim>\<open>null\<close> the read of \<^verbatim>\<open>data.items\<close>
  raises, and the error goes to the \<^verbatim>\<open>catch\<close> block like a network error. An array is
  truthy, so \<^verbatim>\<open>data.items || data\<close> is \<^verbatim>\<open>data.items\<close>.
\<close>

definition searchCharacters_try ::
  "(jsstring \<Rightarrow> jsstring) \<Rightarrow> network \<Rightarrow> jsstring \<Rightarrow> jsstring \<Rightarrow> int \<Rightarrow> int
     \<Rightarrow> js_error + character envelope" where
  "searchCharacters_try toLowerCase net nm rc page limit =
     (case fetch_json (characters_endpoint net page limit) of
        Inl e \<Rightarrow> Inl e
      | Inr None \<Rightarrow> Inl (null_read_error (str ''items''))
      | Inr (Some data) \<Rightarrow>
          (let filteredItems =
                 filter_by_race toLowerCase rc (filter_by_name toLowerCase nm (items data))
           in Inr (data\<lparr>items := filteredItems\<rparr>)))"

definition searchCharacters ::
  "(jsstring \<Rightarrow> jsstring) \<Rightarrow> network \<Rightarrow> jsstring \<Rightarrow> jsstring \<Rightarrow> int \<Rightarrow> int
     \<Rightarrow> js_error + character envelope" where
  "searchCharacters toLowerCase net nm rc page limit =
     (case searchCharacters_try toLowerCase net nm rc page limit of
        Inr result \<Rightarrow> Inr result
      | Inl e \<Rightarrow>
          (let filteredItems =
                 filter_by_race toLowerCase rc (filter_by_name toLowerCase nm mockCharacters)
           in Inr \<lparr>items = filteredItems,
                   meta = \<lparr>totalItems = int (length filteredItems),
                            itemCount = int (length filteredItems),
                            itemsPerPage = limit,
                            totalPages = Finite 1,
                            currentPage = page\<rparr>\<rparr>))"

definition getPlanets :: "network \<Rightarrow> js_error + planet envelope option" where
  "getPlanets net =
     (case fetch_json (planets_endpoint net) of
        Inr data \<Rightarrow> Inr data
      | Inl e \<Rightarrow>
          Inr (Some \<lparr>items = mockPlanets,
                     meta = \<lparr>totalItems = int (length mockPlanets),
                              itemCount = int (length mockPlanets),
                              itemsPerPage = 10,
                              totalPages = Finite 1,
                              currentPage = 1\<rparr>\<rparr>))"

definition handleApiError :: "js_error \<Rightarrow> jsstring" where
  "handleApiError e =
     (if includes_str (message e) (str ''Failed to fetch'') then
        str ''Network error. Please check your internet connection.''
      else if includes_str (message e) (str ''404'') then str ''Character not found.''
      else if includes_str (message e) (str ''500'') then str ''Server error. Please try again later.''
      else str ''An unexpected error occurred. Please try again.'')"

section \<open>The list screen (routes/+page.svelte)\<close>

text \<open>
  The reactive variables of a screen. Both screens have \<open>loading\<close> and \<open>error\<close>.
  An operation returns the new state together with the service calls it issued, in
  order; every service call issues exactly one \<^verbatim>\<open>fetch\<close>.
\<close>

datatype api_call =
    GetAllCharacters int int
  | SearchCharacters jsstring jsstring int int
  | GetCharacterById jsstring

record view_state =
  loading :: bool
  error :: jsstring

record list_state = view_state +
  characters :: "character list"
  currentPage' :: int
  totalPages' :: jsnum
  hasMore :: bool

definition initial_list_state :: list_state where
  "initial_list_state =
     \<lparr>loading = False, error = [], characters = [], currentPage' = 1,
      totalPages' = Finite 1, hasMore = True\<rparr>"

text \<open>
  \<^verbatim>\<open>loadCharacters(page, reset)\<close> runs in steps: the statements before the \<^verbatim>\<open>await\<close>;
  the rest of the \<^verbatim>\<open>try\<close> block once the awaited call has resolved to \<open>data\<close>, which
  raises at the first read of \<^verbatim>\<open>data.items\<close> when \<open>data\<close> is \<^verbatim>\<open>null\<close>, before any
  variable is assigned; the \<^verbatim>\<open>catch\<close> block for an error raised by the awaited call or
  by the \<^verbatim>\<open>try\<close> block; and \<^verbatim>\<open>finally\<close>.
\<close>

definition loadCharacters_begin :: "list_state \<Rightarrow> list_state" where
  "loadCharacters_begin s = s\<lparr>loading := True, error := []\<rparr>"

definition loadCharacters_try ::
  "js_error + character envelope option \<Rightarrow> int \<Rightarrow> bool \<Rightarrow> list_state \<Rightarrow> js_error + list_state" where
  "loadCharacters_try outcome page reset s =
     (case outcome of
        Inl err \<Rightarrow> Inl err
      | Inr None \<Rightarrow> Inl (null_read_error (str ''items''))
      | Inr (Some data) \<Rightarrow>
          (let s1 = (if reset then s\<lparr>characters := items data\<rparr>
                     else s\<lparr>characters := characters s @ items data\<rparr>);
               s2 = s1\<lparr>totalPages' := js_or (totalPages (meta data)) (Finite 1)\<rparr>;
               s3 = s2\<lparr>hasMore := js_less (Finite page) (totalPages' s2)\<rparr>
           in Inr (s3\<lparr>currentPage' := page\<rparr>)))"

definition loadCharacters_settle ::
  "js_error + character envelope option \<Rightarrow> int \<Rightarrow> bool \<Rightarrow> list_state \<Rightarrow> list_state" where
  "loadCharacters_settle outcome page reset s =
     (let s' =
        (case loadCharacters_try outcome page reset s of
           Inr t \<Rightarrow> t
         | Inl err \<Rightarrow> s\<lparr>error := handleApiError err\<rparr>)
      in s'\<lparr>loading := False\<rparr>)"

definition loadCharacters ::
  "network \<Rightarrow> int \<Rightarrow> bool \<Rightarrow> list_state \<Rightarrow> list_state \<times> api_call list" where
  "loadCharacters net page reset s =
     (loadCharacters_settle (getAllCharacters net page 12) page reset (loadCharacters_begin s),
      [GetAllCharacters page 12])"

text \<open>
  The outcome of the \<^verbatim>\<open>try\<close> block of a whole load: the error it raises, or the state
  it reaches.
\<close>

definition loadCharacters_attempt ::
  "network \<Rightarrow> int \<Rightarrow> bool \<Rightarrow> list_state \<Rightarrow> js_error + list_state" where
  "loadCharacters_attempt net page reset s =
     loadCharacters_try (getAllCharacters net page 12) page reset (loadCharacters_begin s)"

text \<open>
  The screen's own \<^verbatim>\<open>searchCharacters(name, race)\<close>, in the same steps. The service's
  search resolves to an object.
\<close>

definition searchCharacters_settle ::
  "js_error + character envelope \<Rightarrow> list_state \<Rightarrow> list_state" where
  "searchCharacters_settle outcome s =
     (let s' =
        (case outcome of
           Inr data \<Rightarrow> (s\<lparr>characters := items data\<rparr>)\<lparr>hasMore := False\<rparr>
         | Inl err \<Rightarrow> s\<lparr>error := handleApiError err\<rparr>)
      in s'\<lparr>loading := False\<rparr>)"

definition searchCharacters_view ::
  "(jsstring \<Rightarrow> jsstring) \<Rightarrow> network \<Rightarrow> jsstring \<Rightarrow> jsstring \<Rightarrow> list_state
     \<Rightarrow> list_state \<times> api_call list" where
  "searchCharacters_view toLowerCase net nm rc s =
     (searchCharacters_settle (searchCharacters toLowerCase net nm rc 1 50)
        (s\<lparr>loading := True, error := []\<rparr>),
      [SearchCharacters nm rc 1 50])"

definition loadMore :: "network \<Rightarrow> list_state \<Rightarrow> list_state \<times> api_call list" where
  "loadMore net s =
     (if \<not> loading s \<and> hasMore s then loadCharacters net (currentPage' s + 1) False s
      else (s, []))"

definition onMount :: "network \<Rightarrow> list_state \<times> api_call list" where
  "onMount net = loadCharacters net 1 True initial_list_state"

section \<open>The detail screen\<close>

text \<open>The variable \<open>character\<close> holds \<^verbatim>\<open>null\<close>, here \<open>None\<close>, or a record.\<close>

record detail_state = view_state +
  character :: "character option"

definition initial_detail_state :: detail_state where
  "initial_detail_state = \<lparr>loading = True, error = [], character = None\<rparr>"

definition loadCharacter_settle ::
  "js_error + character option \<Rightarrow> detail_state \<Rightarrow> detail_state" where
  "loadCharacter_settle outcome s =
     (let s' =
        (case outcome of
           Inr data \<Rightarrow> s\<lparr>character := data\<rparr>
         | Inl err \<Rightarrow> s\<lparr>error := handleApiError err\<rparr>)
      in s'\<lparr>loading := False\<rparr>)"

definition loadCharacter ::
  "network \<Rightarrow> jsstring \<Rightarrow> detail_state \<Rightarrow> detail_state \<times> api_call list" where
  "loadCharacter net ident s =
     (loadCharacter_settle (getCharacterById net ident) (s\<lparr>loading := True, error := []\<rparr>),
      [GetCharacterById ident])"

section \<open>Network outcomes\<close>

text \<open>
  A network call fails when the transport fails, the status is not a success status, or
  the body cannot be read or does not parse.
\<close>

fun network_failure :: "'a fetch_outcome \<Rightarrow> bool" where
  "network_failure (Rejected m) = True"
| "network_failure (Response status (Unreadable m)) = True"
| "network_failure (Response status (Malformed m)) = True"
| "network_failure (Response status (Parsed d)) = (\<not> ok status)"

text \<open>
  Networks to run the operations on: one in which every request fails in transport; one
  that answers every request for a page of characters with status 200 and a given
  envelope, and is unreachable otherwise; one that answers every request with status 200
  and an envelope or record; and one that answers every request with status 200 and the
  body \<^verbatim>\<open>null\<close>.
\<close>

definition offline :: network where
  "offline =
     \<lparr>characters_endpoint = (\<lambda>page limit. Rejected (str ''Failed to fetch'')),
      character_endpoint = (\<lambda>ident. Rejected (str ''Failed to fetch'')),
      planets_endpoint = Rejected (str ''Failed to fetch'')\<rparr>"

definition answering :: "character envelope \<Rightarrow> network" where
  "answering env =
     offline\<lparr>characters_endpoint := (\<lambda>page limit. Response 200 (Parsed (Some env)))\<rparr>"

definition first_page :: "character envelope" where
  "first_page =
     \<lparr>items = [goku, vegeta, piccolo],
      meta = \<lparr>totalItems = 6, itemCount = 3, itemsPerPage = 3, totalPages = Finite 2,
               currentPage = 1\<rparr>\<rparr>"

definition planets_page :: "planet envelope" where
  "planets_page =
     \<lparr>items = mockPlanets,
      meta = \<lparr>totalItems = 3, itemCount = 3, itemsPerPage = 10, totalPages = Finite 1,
               currentPage = 1\<rparr>\<rparr>"

definition online :: network where
  "online =
     \<lparr>characters_endpoint = (\<lambda>page limit. Response 200 (Parsed (Some first_page))),
      character_endpoint = (\<lambda>ident. Response 200 (Parsed (Some goku))),
      planets_endpoint = Response 200 (Parsed (Some planets_page))\<rparr>"

definition answering_null :: network where
  "answering_null =
     \<lparr>characters_endpoint = (\<lambda>page limit. Response 200 (Parsed None)),
      character_endpoint = (\<lambda>ident. Response 200 (Parsed None)),
      planets_endpoint = Response 200 (Parsed None)\<rparr>"

section \<open>The envelope invariant\<close>

text \<open>
  The invariant of a paginated envelope as the data model states it: the item count is
  the length of the items, and the current page lies between 1 and the total page count
  whenever there are items at all.
\<close>

fun in_page_range :: "int \<Rightarrow> jsnum \<Rightarrow> bool" where
  "in_page_range p (Finite t) = (1 \<le> p \<and> p \<le> t)"
| "in_page_range p Infinity = (1 \<le> p)"
| "in_page_range p NaN = False"

definition envelope_invariant :: "'a envelope \<Rightarrow> bool" where
  "envelope_invariant env =
     (itemCount (meta env) = int (length (items env))
      \<and> (0 < totalItems (meta env) \<longrightarrow> in_page_range (currentPage (meta env)) (totalPages (meta env))))"

text \<open>
  A result of the service is a well-formed envelope when it is an envelope, not an error
  and not \<^verbatim>\<open>null\<close>, and satisfies the invariant.
\<close>

definition well_formed_envelope :: "js_error + 'a envelope option \<Rightarrow> bool" where
  "well_formed_envelope r =
     (case r of Inr (Some env) \<Rightarrow> envelope_invariant env | Inr None \<Rightarrow> False | Inl e \<Rightarrow> False)"

section \<open>Basic facts\<close>

lemma fetch_json_failure: "network_failure r \<Longrightarrow> \<exists>e. fetch_json r = Inl e"
  by (cases r rule: network_failure.cases) (auto simp: fetch_json_def)

lemma fetch_json_success: "ok status \<Longrightarrow> fetch_json (Response status (Parsed d)) = Inr d"
  by (simp add: fetch_json_def)

lemma fetch_json_error_cases:
  assumes "fetch_json r = Inl e"
  shows "(\<exists>m. e = TypeError m) \<or> (\<exists>m. e = SyntaxError m)
         \<or> (\<exists>status. e = Error (str ''HTTP error! status: '' @ string_of_nat status))"
  using assms
  by (cases r rule: network_failure.cases) (auto simp: fetch_json_def split: if_splits)

lemma fetch_json_error_not_found:
  assumes "fetch_json r = Inl e"
  shows "e \<noteq> Error (str ''Character not found'')"
  using fetch_json_error_cases [OF assms] by (auto simp: str_def)

lemma network_success:
  assumes "\<not> network_failure r"
  shows "\<exists>status data. ok status \<and> r = Response status (Parsed data)"
  using assms by (cases r rule: network_failure.cases) auto

lemma ok_200: "ok 200"
  by (simp add: ok_def)

lemma slice_take_drop:
  "0 \<le> start \<Longrightarrow> start \<le> end' \<Longrightarrow> slice xs start end' = take (nat (end' - start)) (drop (nat start) xs)"
  unfolding slice_def Let_def
  by (auto simp: min_def max_def nat_diff_distrib')

lemma Math_ceil_div_ceiling:
  "b \<noteq> 0 \<Longrightarrow> Math_ceil_div a b = Finite \<lceil>real a / real_of_int b\<rceil>"
  unfolding Math_ceil_div_def
  using ceiling_divide_eq_div[of "int a" b, where ?'a = real] by simp

lemma length_mockCharacters: "length mockCharacters = 6"
  by (simp add: mockCharacters_def)

lemma id_simps [simp]:
  "id' goku = 1" "id' vegeta = 2" "id' piccolo = 3" "id' gohan = 4" "id' frieza = 5" "id' cell = 6"
  by (simp_all add: goku_def vegeta_def piccolo_def gohan_def frieza_def cell_def)

lemma name_simps [simp]:
  "name goku = str ''Goku''" "name vegeta = str ''Vegeta''" "name piccolo = str ''Piccolo''"
  "name gohan = str ''Gohan''" "name frieza = str ''Frieza''" "name cell = str ''Cell''"
  by (simp_all add: goku_def vegeta_def piccolo_def gohan_def frieza_def cell_def)

lemma race_simps [simp]:
  "race goku = str ''Saiyan''" "race vegeta = str ''Saiyan''" "race piccolo = str ''Namekian''"
  "race gohan = str ''Half-Saiyan''" "race frieza = str ''Frieza Race''" "race cell = str ''Android''"
  by (simp_all add: goku_def vegeta_def piccolo_def gohan_def frieza_def cell_def)

lemma getAllCharacters_failure:
  assumes "network_failure (characters_endpoint net page limit)"
  shows "getAllCharacters net page limit =
           Inr (Some \<lparr>items = slice mockCharacters ((page - 1) * limit) ((page - 1) * limit + limit),
                meta = \<lparr>totalItems = int (length mockCharacters),
                         itemCount = int (length (slice mockCharacters ((page - 1) * limit) ((page - 1) * limit + limit))),
                         itemsPerPage = limit,
                         totalPages = Math_ceil_div (length mockCharacters) limit,
                         currentPage = page\<rparr>\<rparr>)"
proof -
  obtain e where "fetch_json (characters_endpoint net page limit) = Inl e"
    using fetch_json_failure [OF assms] by blast
  then show ?thesis
    by (simp add: getAllCharacters_def Let_def)
qed

lemma getAllCharacters_ok:
  assumes "ok status" and "characters_endpoint net page limit = Response status (Parsed data)"
  shows "getAllCharacters net page limit = Inr data"
  using assms by (simp add: getAllCharacters_def fetch_json_success)

lemma getCharacterById_failure:
  assumes "network_failure (character_endpoint net ident)"
  shows "getCharacterById net ident =
           (case find (\<lambda>char. Integer (id' char) = parseInt ident) mockCharacters of
              Some c \<Rightarrow> Inr (Some c)
            | None \<Rightarrow> Inl (Error (str ''Character not found'')))"
proof -
  obtain e where "fetch_json (character_endpoint net ident) = Inl e"
    using fetch_json_failure [OF assms] by blast
  then show ?thesis
    by (simp add: getCharacterById_def)
qed

lemma find_by_id_present:
  assumes "c \<in> set mockCharacters"
  shows "find (\<lambda>char. id' char = id' c) mockCharacters = Some c"
  using assms by (auto simp: mockCharacters_def)

lemma find_by_id_absent:
  assumes "\<forall>c \<in> set mockCharacters. n \<noteq> Integer (id' c)"
  shows "find (\<lambda>char. Integer (id' char) = n) mockCharacters = None"
  using assms by (auto simp: find_None_iff)

lemmas parseInt_unfold =
  parseInt_def str_def is_white_space_def radix_digit_def digit_value_def radix_value_def Let_def

lemma parseInt_1: "parseInt (str ''1'') = Integer 1"
  by (simp add: parseInt_unfold)

lemma parseInt_999: "parseInt (str ''999'') = Integer 999"
  by (simp add: parseInt_unfold)

lemma parseInt_nbsp_5: "parseInt [160, 53] = Integer 5"
  by (simp add: parseInt_unfold)

lemma network_failure_offline:
  "network_failure (characters_endpoint offline page limit)"
  "network_failure (character_endpoint offline ident)"
  "network_failure (planets_endpoint offline)"
  by (simp_all add: offline_def)

lemma characters_endpoint_answering:
  "characters_endpoint (answering env) page limit = Response 200 (Parsed (Some env))"
  by (simp add: answering_def)

section \<open>Fallback pagination\<close>

text \<open>
  Claim C2. For every page \<open>\<ge> 1\<close> and page size \<open>\<ge> 1\<close>, when the network call fails,
  \<open>getAllCharacters\<close> returns the items of the bundled dataset from index
  \<open>(page - 1) * limit\<close> up to, not including, \<open>(page - 1) * limit + limit\<close>, with
  \<open>totalItems\<close> the length of the dataset and \<open>totalPages\<close> the ceiling of
  \<open>totalItems / limit\<close>. The dataset has 6 records; with page size 12, page 1 holds all
  6 of them with \<open>totalPages = 1\<close>, and page 2 holds none.
\<close>

theorem getAllCharacters_fallback_page:
  "(1 \<le> page \<and> 1 \<le> limit \<and> network_failure (characters_endpoint net page limit) \<longrightarrow>
      getAllCharacters net page limit =
        Inr (Some \<lparr>items = take (nat limit) (drop (nat ((page - 1) * limit)) mockCharacters),
             meta = \<lparr>totalItems = int (length mockCharacters),
                      itemCount = int (length (take (nat limit) (drop (nat ((page - 1) * limit)) mockCharacters))),
                      itemsPerPage = limit,
                      totalPages = Finite \<lceil>real (length mockCharacters) / real_of_int limit\<rceil>,
                      currentPage = page\<rparr>\<rparr>))
   \<and> length mockCharacters = 6
   \<and> (network_failure (characters_endpoint net 1 12) \<longrightarrow>
        (\<exists>env. getAllCharacters net 1 12 = Inr (Some env) \<and> items env = mockCharacters
           \<and> length (items env) = 6 \<and> totalPages (meta env) = Finite 1))
   \<and> (network_failure (characters_endpoint net 2 12) \<longrightarrow>
        (\<exists>env. getAllCharacters net 2 12 = Inr (Some env) \<and> items env = []))"
proof (intro conjI impI)
  assume h: "1 \<le> page \<and> 1 \<le> limit \<and> network_failure (characters_endpoint net page limit)"
  then have "0 \<le> (page - 1) * limit" by simp
  moreover have "(page - 1) * limit \<le> (page - 1) * limit + limit" using h by simp
  ultimately have "slice mockCharacters ((page - 1) * limit) ((page - 1) * limit + limit)
      = take (nat limit) (drop (nat ((page - 1) * limit)) mockCharacters)"
    using slice_take_drop [of "(page - 1) * limit" "(page - 1) * limit + limit" mockCharacters]
    by simp
  moreover have "Math_ceil_div (length mockCharacters) limit
      = Finite \<lceil>real (length mockCharacters) / real_of_int limit\<rceil>"
    using h by (intro Math_ceil_div_ceiling) simp
  ultimately show "getAllCharacters net page limit =
        Inr (Some \<lparr>items = take (nat limit) (drop (nat ((page - 1) * limit)) mockCharacters),
             meta = \<lparr>totalItems = int (length mockCharacters),
                      itemCount = int (length (take (nat limit) (drop (nat ((page - 1) * limit)) mockCharacters))),
                      itemsPerPage = limit,
                      totalPages = Finite \<lceil>real (length mockCharacters) / real_of_int limit\<rceil>,
                      currentPage = page\<rparr>\<rparr>)"
    using getAllCharacters_failure [of net page limit] h by simp
next
  show "length mockCharacters = 6" by (rule length_mockCharacters)
next
  assume "network_failure (characters_endpoint net 1 12)"
  then show "\<exists>env. getAllCharacters net 1 12 = Inr (Some env) \<and> items env = mockCharacters
           \<and> length (items env) = 6 \<and> totalPages (meta env) = Finite 1"
    by (simp add: getAllCharacters_failure slice_def length_mockCharacters Math_ceil_div_def)
next
  assume "network_failure (characters_endpoint net 2 12)"
  then show "\<exists>env. getAllCharacters net 2 12 = Inr (Some env) \<and> items env = []"
    by (simp add: getAllCharacters_failure slice_def length_mockCharacters)
qed

theorem getAllCharacters_fallback_page_witness:
  "network_failure (characters_endpoint offline 2 4)
   \<and> getAllCharacters offline 2 4 =
       Inr (Some \<lparr>items = [frieza, cell],
            meta = \<lparr>totalItems = 6, itemCount = 2, itemsPerPage = 4,
                     totalPages = Finite 2, currentPage = 2\<rparr>\<rparr>)
   \<and> (\<exists>env. getAllCharacters offline 1 12 = Inr (Some env) \<and> items env = mockCharacters
           \<and> length (items env) = 6 \<and> totalPages (meta env) = Finite 1)
   \<and> (\<exists>env. getAllCharacters offline 2 12 = Inr (Some env) \<and> items env = [])"
proof -
  note inst = getAllCharacters_fallback_page [where net = offline and page = 2 and limit = 4]
  have f: "network_failure (characters_endpoint offline p l)" for p l
    by (simp add: offline_def)
  from inst f have "getAllCharacters offline 2 4 =
        Inr (Some \<lparr>items = take (nat 4) (drop (nat ((2 - 1) * 4)) mockCharacters),
             meta = \<lparr>totalItems = int (length mockCharacters),
                      itemCount = int (length (take (nat 4) (drop (nat ((2 - 1) * 4)) mockCharacters))),
                      itemsPerPage = 4,
                      totalPages = Finite \<lceil>real (length mockCharacters) / real_of_int 4\<rceil>,
                      currentPage = 2\<rparr>\<rparr>)"
    by simp
  then have "getAllCharacters offline 2 4 =
       Inr (Some \<lparr>items = [frieza, cell],
            meta = \<lparr>totalItems = 6, itemCount = 2, itemsPerPage = 4,
                     totalPages = Finite 2, currentPage = 2\<rparr>\<rparr>)"
    by (simp add: mockCharacters_def)
  moreover from inst f have "\<exists>env. getAllCharacters offline 1 12 = Inr (Some env) \<and> items env = mockCharacters
           \<and> length (items env) = 6 \<and> totalPages (meta env) = Finite 1"
    by blast
  moreover from inst f have "\<exists>env. getAllCharacters offline 2 12 = Inr (Some env) \<and> items env = []"
    by blast
  ultimately show ?thesis using f by simp
qed

section \<open>Fallback lookup of one character\<close>

text \<open>
  Claim C3. For every identifier, when the network call fails, \<open>getCharacterById\<close>
  compares the Number that \<open>parseInt\<close> reads from the identifier with the \<open>id\<close> of the
  records of the bundled dataset. It returns the record with that \<open>id\<close> if there is one.
  Otherwise it raises the error \<open>Character not found\<close>, which is not the error that the
  failed network call raised: that one is a \<open>TypeError\<close>, a \<open>SyntaxError\<close> or the
  service's error for an HTTP status. Under network failure the identifier \<open>1\<close> gives the
  record of Goku and \<open>999\<close> gives the error.
\<close>

theorem getCharacterById_fallback_lookup:
  "(network_failure (character_endpoint net ident) \<longrightarrow>
      (\<forall>c \<in> set mockCharacters. parseInt ident = Integer (id' c) \<longrightarrow>
          getCharacterById net ident = Inr (Some c))
    \<and> ((\<forall>c \<in> set mockCharacters. parseInt ident \<noteq> Integer (id' c)) \<longrightarrow>
          getCharacterById net ident = Inl (Error (str ''Character not found'')))
    \<and> (\<exists>e. fetch_json (character_endpoint net ident) = Inl e
          \<and> e \<noteq> Error (str ''Character not found'')
          \<and> ((\<exists>m. e = TypeError m) \<or> (\<exists>m. e = SyntaxError m)
              \<or> (\<exists>status. e = Error (str ''HTTP error! status: '' @ string_of_nat status)))))
   \<and> (network_failure (character_endpoint net (str ''1'')) \<longrightarrow>
        getCharacterById net (str ''1'') = Inr (Some goku) \<and> id' goku = 1
        \<and> name goku = str ''Goku'')
   \<and> (network_failure (character_endpoint net (str ''999'')) \<longrightarrow>
        getCharacterById net (str ''999'') = Inl (Error (str ''Character not found'')))"
proof (intro conjI impI ballI)
  fix c
  assume "network_failure (character_endpoint net ident)" "c \<in> set mockCharacters"
    "parseInt ident = Integer (id' c)"
  then show "getCharacterById net ident = Inr (Some c)"
    by (simp add: getCharacterById_failure find_by_id_present)
next
  assume "network_failure (character_endpoint net ident)"
    "\<forall>c \<in> set mockCharacters. parseInt ident \<noteq> Integer (id' c)"
  then show "getCharacterById net ident = Inl (Error (str ''Character not found''))"
    by (simp add: getCharacterById_failure find_by_id_absent)
next
  assume "network_failure (character_endpoint net ident)"
  then obtain e where e: "fetch_json (character_endpoint net ident) = Inl e"
    using fetch_json_failure by blast
  show "\<exists>e. fetch_json (character_endpoint net ident) = Inl e
          \<and> e \<noteq> Error (str ''Character not found'')
          \<and> ((\<exists>m. e = TypeError m) \<or> (\<exists>m. e = SyntaxError m)
              \<or> (\<exists>status. e = Error (str ''HTTP error! status: '' @ string_of_nat status)))"
    using e fetch_json_error_not_found [OF e] fetch_json_error_cases [OF e] by blast
next
  assume "network_failure (character_endpoint net (str ''1''))"
  then show "getCharacterById net (str ''1'') = Inr (Some goku)"
    by (simp add: getCharacterById_failure parseInt_1 mockCharacters_def)
next
  show "id' goku = 1" by simp
next
  show "name goku = str ''Goku''" by simp
next
  assume "network_failure (character_endpoint net (str ''999''))"
  then show "getCharacterById net (str ''999'') = Inl (Error (str ''Character not found''))"
    by (simp add: getCharacterById_failure parseInt_999 mockCharacters_def)
qed

theorem getCharacterById_fallback_lookup_witness:
  "network_failure (character_endpoint offline (str ''1''))
   \<and> goku \<in> set mockCharacters \<and> parseInt (str ''1'') = Integer (id' goku)
   \<and> getCharacterById offline (str ''1'') = Inr (Some goku)
   \<and> network_failure (character_endpoint offline [160, 53])
   \<and> frieza \<in> set mockCharacters \<and> parseInt [160, 53] = Integer (id' frieza)
   \<and> getCharacterById offline [160, 53] = Inr (Some frieza)
   \<and> network_failure (character_endpoint offline (str ''999''))
   \<and> parseInt (str ''999'') = Integer 999 \<and> map id' mockCharacters = [1, 2, 3, 4, 5, 6]
   \<and> getCharacterById offline (str ''999'') = Inl (Error (str ''Character not found''))
   \<and> fetch_json (character_endpoint offline (str ''999'')) = Inl (TypeError (str ''Failed to fetch''))"
proof -
  note inst1 = getCharacterById_fallback_lookup [where net = offline and ident = "str ''1''"]
  note inst2 = getCharacterById_fallback_lookup [where net = offline and ident = "str ''999''"]
  note inst3 = getCharacterById_fallback_lookup [where net = offline and ident = "[160, 53]"]
  have f: "network_failure (character_endpoint offline i)" for i
    by (simp add: offline_def)
  have m: "goku \<in> set mockCharacters" "frieza \<in> set mockCharacters"
    by (simp_all add: mockCharacters_def)
  have p: "parseInt (str ''1'') = Integer (id' goku)" by (simp add: parseInt_1)
  have q: "parseInt [160, 53] = Integer (id' frieza)" by (simp add: parseInt_nbsp_5)
  have a: "\<forall>c \<in> set mockCharacters. parseInt (str ''999'') \<noteq> Integer (id' c)"
    by (simp add: parseInt_999 mockCharacters_def)
  from inst1 f m p have "getCharacterById offline (str ''1'') = Inr (Some goku)" by blast
  moreover from inst3 f m q have "getCharacterById offline [160, 53] = Inr (Some frieza)" by blast
  moreover from inst2 f a
  have "getCharacterById offline (str ''999'') = Inl (Error (str ''Character not found''))"
    by blast
  moreover have "map id' mockCharacters = [1, 2, 3, 4, 5, 6]"
    by (simp add: mockCharacters_def)
  moreover have "fetch_json (character_endpoint offline (str ''999'')) = Inl (TypeError (str ''Failed to fetch''))"
    by (simp add: offline_def fetch_json_def)
  ultimately show ?thesis using f m p q parseInt_999 by blast
qed

section \<open>Searching\<close>

lemma includes_str_sublist: "includes_str s t = sublist t s"
  by (induction s) (auto simp: sublist_Cons_right)

lemma filters_as_one_filter:
  "filter_by_race toLowerCase rc (filter_by_name toLowerCase nm xs) =
     filter (\<lambda>c. (nm = [] \<or> sublist (toLowerCase nm) (toLowerCase (name c)))
               \<and> (rc = [] \<or> sublist (toLowerCase rc) (toLowerCase (race c)))) xs"
  by (simp add: filter_by_race_def filter_by_name_def includes_str_sublist conj_commute)

lemma searchCharacters_failure:
  assumes "network_failure (characters_endpoint net page limit)"
  shows "searchCharacters toLowerCase net nm rc page limit =
           Inr \<lparr>items = filter_by_race toLowerCase rc (filter_by_name toLowerCase nm mockCharacters),
                meta = \<lparr>totalItems = int (length (filter_by_race toLowerCase rc (filter_by_name toLowerCase nm mockCharacters))),
                         itemCount = int (length (filter_by_race toLowerCase rc (filter_by_name toLowerCase nm mockCharacters))),
                         itemsPerPage = limit,
                         totalPages = Finite 1,
                         currentPage = page\<rparr>\<rparr>"
proof -
  obtain e where "fetch_json (characters_endpoint net page limit) = Inl e"
    using fetch_json_failure [OF assms] by blast
  then show ?thesis
    by (simp add: searchCharacters_def searchCharacters_try_def Let_def)
qed

lemma searchCharacters_ok:
  assumes "ok status"
    and "characters_endpoint net page limit = Response status (Parsed (Some data))"
  shows "searchCharacters toLowerCase net nm rc page limit =
           Inr (data\<lparr>items := filter_by_race toLowerCase rc (filter_by_name toLowerCase nm (items data))\<rparr>)"
  using assms
  by (simp add: searchCharacters_def searchCharacters_try_def fetch_json_success Let_def)

lemma searchCharacters_total:
  "\<exists>data. searchCharacters toLowerCase net nm rc page limit = Inr data"
  by (simp add: searchCharacters_def Let_def split: sum.splits)

lemma lowers_ascii_ascii_lower: "lowers_ascii ascii_lower"
  by (simp add: lowers_ascii_def)

lemma lowers_asciiD:
  assumes "lowers_ascii toLowerCase" and "\<forall>u \<in> set s. u < 128"
  shows "toLowerCase s = ascii_lower s"
  using assms by (simp add: lowers_ascii_def)

lemma lower_queries:
  assumes "lowers_ascii toLowerCase"
  shows "toLowerCase (str ''goku'') = str ''goku''"
    and "toLowerCase (str ''saiyan'') = str ''saiyan''"
  by (simp_all add: lowers_asciiD [OF assms] str_def ascii_lower_def)

lemma lower_names:
  assumes "lowers_ascii toLowerCase"
  shows "toLowerCase (str ''Goku'') = str ''goku''"
    and "toLowerCase (str ''Vegeta'') = str ''vegeta''"
    and "toLowerCase (str ''Piccolo'') = str ''piccolo''"
    and "toLowerCase (str ''Gohan'') = str ''gohan''"
    and "toLowerCase (str ''Frieza'') = str ''frieza''"
    and "toLowerCase (str ''Cell'') = str ''cell''"
  by (simp_all add: lowers_asciiD [OF assms] str_def ascii_lower_def)

lemma lower_races:
  assumes "lowers_ascii toLowerCase"
  shows "toLowerCase (str ''Saiyan'') = str ''saiyan''"
    and "toLowerCase (str ''Namekian'') = str ''namekian''"
    and "toLowerCase (str ''Half-Saiyan'') = str ''half-saiyan''"
    and "toLowerCase (str ''Frieza Race'') = str ''frieza race''"
    and "toLowerCase (str ''Android'') = str ''android''"
  by (simp_all add: lowers_asciiD [OF assms] str_def ascii_lower_def)

lemma goku_in_names:
  "includes_str (str ''goku'') (str ''goku'')" "\<not> includes_str (str ''vegeta'') (str ''goku'')"
  "\<not> includes_str (str ''piccolo'') (str ''goku'')" "\<not> includes_str (str ''gohan'') (str ''goku'')"
  "\<not> includes_str (str ''frieza'') (str ''goku'')" "\<not> includes_str (str ''cell'') (str ''goku'')"
  by (simp_all add: str_def)

lemma saiyan_in_races:
  "includes_str (str ''saiyan'') (str ''saiyan'')" "\<not> includes_str (str ''namekian'') (str ''saiyan'')"
  "includes_str (str ''half-saiyan'') (str ''saiyan'')"
  "\<not> includes_str (str ''frieza race'') (str ''saiyan'')"
  "\<not> includes_str (str ''android'') (str ''saiyan'')"
  by (simp_all add: str_def)

lemma str_nonempty: "str ''goku'' \<noteq> []" "str ''saiyan'' \<noteq> []"
  by (simp_all add: str_def)

lemma search_goku:
  assumes "lowers_ascii toLowerCase"
  shows "filter_by_race toLowerCase [] (filter_by_name toLowerCase (str ''goku'') mockCharacters) = [goku]"
  by (simp add: filter_by_race_def filter_by_name_def mockCharacters_def str_nonempty
      lower_queries [OF assms] lower_names [OF assms] goku_in_names)

lemma search_saiyan:
  assumes "lowers_ascii toLowerCase"
  shows "filter_by_race toLowerCase (str ''saiyan'') (filter_by_name toLowerCase [] mockCharacters)
           = [goku, vegeta, gohan]"
  by (simp add: filter_by_race_def filter_by_name_def mockCharacters_def str_nonempty
      lower_queries [OF assms] lower_races [OF assms] saiyan_in_races)

text \<open>
  Claim C4. For every name and race string, when the network call fails,
  \<open>searchCharacters\<close> keeps the records of the whole bundled dataset whose lower-cased
  name contains the lower-cased name string and whose lower-cased race contains the
  lower-cased race string, an empty string filtering nothing out. In the envelope
  \<open>totalItems\<close> and \<open>itemCount\<close> are both the number of records kept and \<open>totalPages\<close>
  is 1. This holds whatever the case mapping of the runtime is. With a case mapping that
  is the ASCII one on ASCII strings, the name \<open>goku\<close> keeps the one record of Goku, and
  the race \<open>saiyan\<close> keeps Goku, Vegeta and Gohan.
\<close>

theorem searchCharacters_fallback_filter:
  "(network_failure (characters_endpoint net page limit) \<longrightarrow>
      (\<exists>env. searchCharacters toLowerCase net nm rc page limit = Inr env
         \<and> items env =
             filter (\<lambda>c. (nm = [] \<or> sublist (toLowerCase nm) (toLowerCase (name c)))
                       \<and> (rc = [] \<or> sublist (toLowerCase rc) (toLowerCase (race c)))) mockCharacters
         \<and> totalItems (meta env) = int (length (items env))
         \<and> itemCount (meta env) = int (length (items env))
         \<and> totalPages (meta env) = Finite 1))
   \<and> (lowers_ascii toLowerCase \<and> network_failure (characters_endpoint net page limit) \<longrightarrow>
        (\<exists>env. searchCharacters toLowerCase net (str ''goku'') [] page limit = Inr env
           \<and> items env = [goku] \<and> length (items env) = 1))
   \<and> (lowers_ascii toLowerCase \<and> network_failure (characters_endpoint net page limit) \<longrightarrow>
        (\<exists>env. searchCharacters toLowerCase net [] (str ''saiyan'') page limit = Inr env
           \<and> items env = [goku, vegeta, gohan]
           \<and> goku \<in> set (items env) \<and> vegeta \<in> set (items env)))"
proof (intro conjI impI)
  assume "network_failure (characters_endpoint net page limit)"
  then show "\<exists>env. searchCharacters toLowerCase net nm rc page limit = Inr env
         \<and> items env =
             filter (\<lambda>c. (nm = [] \<or> sublist (toLowerCase nm) (toLowerCase (name c)))
                       \<and> (rc = [] \<or> sublist (toLowerCase rc) (toLowerCase (race c)))) mockCharacters
         \<and> totalItems (meta env) = int (length (items env))
         \<and> itemCount (meta env) = int (length (items env))
         \<and> totalPages (meta env) = Finite 1"
    by (simp add: searchCharacters_failure filters_as_one_filter)
next
  assume "lowers_ascii toLowerCase \<and> network_failure (characters_endpoint net page limit)"
  then show "\<exists>env. searchCharacters toLowerCase net (str ''goku'') [] page limit = Inr env
           \<and> items env = [goku] \<and> length (items env) = 1"
    by (simp add: searchCharacters_failure search_goku)
next
  assume "lowers_ascii toLowerCase \<and> network_failure (characters_endpoint net page limit)"
  then show "\<exists>env. searchCharacters toLowerCase net [] (str ''saiyan'') page limit = Inr env
           \<and> items env = [goku, vegeta, gohan]
           \<and> goku \<in> set (items env) \<and> vegeta \<in> set (items env)"
    by (simp add: searchCharacters_failure search_saiyan)
qed

theorem searchCharacters_fallback_filter_witness:
  "lowers_ascii ascii_lower
   \<and> network_failure (characters_endpoint offline 1 50)
   \<and> (\<exists>env. searchCharacters ascii_lower offline (str ''GO'') (str ''SAIYAN'') 1 50 = Inr env
         \<and> items env = [goku, gohan]
         \<and> totalItems (meta env) = 2 \<and> itemCount (meta env) = 2
         \<and> totalPages (meta env) = Finite 1)
   \<and> (\<exists>env. searchCharacters ascii_lower offline (str ''goku'') [] 1 50 = Inr env
           \<and> items env = [goku] \<and> length (items env) = 1)
   \<and> (\<exists>env. searchCharacters ascii_lower offline [] (str ''saiyan'') 1 50 = Inr env
           \<and> items env = [goku, vegeta, gohan]
           \<and> goku \<in> set (items env) \<and> vegeta \<in> set (items env))"
proof -
  note inst = searchCharacters_fallback_filter
    [where toLowerCase = ascii_lower and net = offline and page = 1 and limit = 50
       and nm = "str ''GO''" and rc = "str ''SAIYAN''"]
  note a = lowers_ascii_ascii_lower
  have f: "network_failure (characters_endpoint offline 1 50)"
    by (simp add: offline_def)
  note general = inst [THEN conjunct1, THEN mp, OF f]
  note by_name = inst [THEN conjunct2, THEN conjunct1, THEN mp, OF conjI [OF a f]]
  note by_race = inst [THEN conjunct2, THEN conjunct2, THEN mp, OF conjI [OF a f]]
  from general obtain env where e: "searchCharacters ascii_lower offline (str ''GO'') (str ''SAIYAN'') 1 50 = Inr env"
    and i: "items env =
             filter (\<lambda>c. (str ''GO'' = [] \<or> sublist (ascii_lower (str ''GO'')) (ascii_lower (name c)))
                       \<and> (str ''SAIYAN'' = [] \<or> sublist (ascii_lower (str ''SAIYAN'')) (ascii_lower (race c)))) mockCharacters"
    and m: "totalItems (meta env) = int (length (items env))"
      "itemCount (meta env) = int (length (items env))" "totalPages (meta env) = Finite 1"
    by auto
  from i have "items env = [goku, gohan]"
    by (simp add: mockCharacters_def str_def ascii_lower_def sublist_code)
  with e m have g: "\<exists>env. searchCharacters ascii_lower offline (str ''GO'') (str ''SAIYAN'') 1 50 = Inr env
         \<and> items env = [goku, gohan]
         \<and> totalItems (meta env) = 2 \<and> itemCount (meta env) = 2
         \<and> totalPages (meta env) = Finite 1"
    by simp
  show ?thesis
    by (intro conjI) (rule a f g by_name by_race)+
qed

text \<open>
  Claim C5. When the network call succeeds with an envelope, \<open>searchCharacters\<close> applies
  the name and the race filter to the items of the one page it fetched, the page of the
  given \<open>page\<close> and \<open>limit\<close>, and returns the fetched envelope with its items replaced by
  the filtered ones, whatever the case mapping of the runtime is. Nothing but the answer
  to that one request enters the result: two networks that answer it alike give the same
  result.
\<close>

theorem searchCharacters_filters_fetched_page:
  "(ok status \<and> characters_endpoint net page limit = Response status (Parsed (Some data)) \<longrightarrow>
      searchCharacters toLowerCase net nm rc page limit =
        Inr (data\<lparr>items :=
               filter (\<lambda>c. (nm = [] \<or> sublist (toLowerCase nm) (toLowerCase (name c)))
                         \<and> (rc = [] \<or> sublist (toLowerCase rc) (toLowerCase (race c))))
                 (items data)\<rparr>))
   \<and> (characters_endpoint net' page limit = characters_endpoint net page limit \<longrightarrow>
        searchCharacters toLowerCase net' nm rc page limit
          = searchCharacters toLowerCase net nm rc page limit)"
proof (intro conjI impI)
  assume "ok status \<and> characters_endpoint net page limit = Response status (Parsed (Some data))"
  then have "searchCharacters toLowerCase net nm rc page limit =
      Inr (data\<lparr>items := filter_by_race toLowerCase rc (filter_by_name toLowerCase nm (items data))\<rparr>)"
    using searchCharacters_ok [of status net page limit data toLowerCase nm rc] by blast
  then show "searchCharacters toLowerCase net nm rc page limit =
        Inr (data\<lparr>items :=
               filter (\<lambda>c. (nm = [] \<or> sublist (toLowerCase nm) (toLowerCase (name c)))
                         \<and> (rc = [] \<or> sublist (toLowerCase rc) (toLowerCase (race c))))
                 (items data)\<rparr>)"
    by (simp add: filters_as_one_filter)
next
  assume "characters_endpoint net' page limit = characters_endpoint net page limit"
  then show "searchCharacters toLowerCase net' nm rc page limit
          = searchCharacters toLowerCase net nm rc page limit"
    by (simp add: searchCharacters_def searchCharacters_try_def)
qed

theorem searchCharacters_filters_fetched_page_witness:
  "ok 200
   \<and> characters_endpoint (answering first_page) 1 3 = Response 200 (Parsed (Some first_page))
   \<and> items first_page = [goku, vegeta, piccolo]
   \<and> searchCharacters ascii_lower (answering first_page) (str ''cell'') [] 1 3
       = Inr (first_page\<lparr>items := []\<rparr>)
   \<and> searchCharacters ascii_lower (answering first_page) [] (str ''saiyan'') 1 3 =
       Inr (first_page\<lparr>items := [goku, vegeta]\<rparr>)"
proof -
  note inst1 = searchCharacters_filters_fetched_page
    [where toLowerCase = ascii_lower and net = "answering first_page" and page = 1 and limit = 3
       and status = 200 and data = first_page and nm = "str ''cell''" and rc = "[]"
       and net' = offline]
  note inst2 = searchCharacters_filters_fetched_page
    [where toLowerCase = ascii_lower and net = "answering first_page" and page = 1 and limit = 3
       and status = 200 and data = first_page and nm = "[]" and rc = "str ''saiyan''"
       and net' = offline]
  have e: "characters_endpoint (answering first_page) 1 3 = Response 200 (Parsed (Some first_page))"
    by (rule characters_endpoint_answering)
  have i: "items first_page = [goku, vegeta, piccolo]"
    by (simp add: first_page_def)
  from ok_200 e inst1
  have a1: "searchCharacters ascii_lower (answering first_page) (str ''cell'') [] 1 3
      = Inr (first_page\<lparr>items := []\<rparr>)"
    by (simp add: i str_def ascii_lower_def sublist_code)
  from ok_200 e inst2
  have a2: "searchCharacters ascii_lower (answering first_page) [] (str ''saiyan'') 1 3 =
       Inr (first_page\<lparr>items := [goku, vegeta]\<rparr>)"
    by (simp add: i str_def ascii_lower_def sublist_code)
  show ?thesis
    by (intro conjI) (rule ok_200 e i a1 a2)+
qed

section \<open>Listing never raises\<close>

lemma well_formed_fallback:
  assumes "network_failure (characters_endpoint net page limit)" and "1 \<le> page" and "1 \<le> limit"
  shows "well_formed_envelope (getAllCharacters net page limit)
           \<longleftrightarrow> page \<le> \<lceil>6 / real_of_int limit\<rceil>"
proof -
  have "Math_ceil_div 6 limit = Finite \<lceil>6 / real_of_int limit\<rceil>"
    using Math_ceil_div_ceiling [of limit 6] assms by simp
  then show ?thesis
    using assms
    by (simp add: getAllCharacters_failure well_formed_envelope_def envelope_invariant_def
        length_mockCharacters)
qed

text \<open>
  The results of \<open>getAllCharacters\<close> are not all well-formed envelopes. Under network
  failure, page 3 of page size 4 lies beyond the two pages of the six bundled records, so
  the envelope has \<open>currentPage = 3\<close> above \<open>totalPages = 2\<close>. And a body \<^verbatim>\<open>null\<close> sent
  with status 200 is returned as it is.
\<close>

theorem getAllCharacters_well_formed_counterexample:
  "network_failure (characters_endpoint offline 3 4)
   \<and> getAllCharacters offline 3 4 =
       Inr (Some \<lparr>items = [],
                  meta = \<lparr>totalItems = 6, itemCount = 0, itemsPerPage = 4,
                           totalPages = Finite 2, currentPage = 3\<rparr>\<rparr>)
   \<and> \<not> well_formed_envelope (getAllCharacters offline 3 4)
   \<and> ok 200
   \<and> characters_endpoint answering_null 1 12 = Response 200 (Parsed None)
   \<and> getAllCharacters answering_null 1 12 = Inr None
   \<and> \<not> well_formed_envelope (getAllCharacters answering_null 1 12)"
proof -
  have f: "network_failure (characters_endpoint offline 3 4)"
    by (simp add: offline_def)
  have a: "getAllCharacters offline 3 4 =
       Inr (Some \<lparr>items = [],
                  meta = \<lparr>totalItems = 6, itemCount = 0, itemsPerPage = 4,
                           totalPages = Finite 2, currentPage = 3\<rparr>\<rparr>)"
    by (simp add: getAllCharacters_failure [OF f] slice_def length_mockCharacters Math_ceil_div_def)
  have b: "\<not> well_formed_envelope (getAllCharacters offline 3 4)"
    by (simp add: a well_formed_envelope_def envelope_invariant_def)
  have c: "characters_endpoint answering_null 1 12 = Response 200 (Parsed None)"
    by (simp add: answering_null_def)
  have d: "getAllCharacters answering_null 1 12 = Inr None"
    by (rule getAllCharacters_ok [OF ok_200 c])
  have e: "\<not> well_formed_envelope (getAllCharacters answering_null 1 12)"
    by (simp add: d well_formed_envelope_def)
  show ?thesis
    by (intro conjI) (rule f a b ok_200 c d e)+
qed

text \<open>
  Claim C6, as amended. For every page and page size and every network outcome,
  \<open>getAllCharacters\<close> raises nothing. A transport failure, a status that is not a success
  status and a body that cannot be read or does not parse all end in the fallback
  envelope cut from the bundled dataset, whose item count is the length of its items. For
  page and page size \<open>\<ge> 1\<close> that envelope holds at most a page of items and a total page
  count \<open>\<ge> 1\<close>, and it is well-formed exactly when the page asked for is at most the total
  page count. The one remaining outcome is a parsed body with a success status, which is
  returned as it is, unchecked: the result is a well-formed envelope exactly when the
  body is one.
\<close>

theorem getAllCharacters_never_raises:
  "(\<exists>data. getAllCharacters net page limit = Inr data)
   \<and> (network_failure (characters_endpoint net page limit) \<longrightarrow>
        (\<exists>env. getAllCharacters net page limit = Inr (Some env)
           \<and> items env = slice mockCharacters ((page - 1) * limit) ((page - 1) * limit + limit)
           \<and> totalItems (meta env) = 6
           \<and> itemCount (meta env) = int (length (items env))
           \<and> itemsPerPage (meta env) = limit
           \<and> totalPages (meta env) = Math_ceil_div 6 limit
           \<and> currentPage (meta env) = page
           \<and> (1 \<le> page \<and> 1 \<le> limit \<longrightarrow>
                length (items env) \<le> nat limit
              \<and> (\<exists>t. totalPages (meta env) = Finite t \<and> 1 \<le> t)
              \<and> (well_formed_envelope (getAllCharacters net page limit)
                    \<longleftrightarrow> page \<le> \<lceil>6 / real_of_int limit\<rceil>))))
   \<and> (\<not> network_failure (characters_endpoint net page limit) \<longrightarrow>
        (\<exists>status data. ok status
           \<and> characters_endpoint net page limit = Response status (Parsed data)
           \<and> getAllCharacters net page limit = Inr data
           \<and> (well_formed_envelope (getAllCharacters net page limit)
                 \<longleftrightarrow> (\<exists>env. data = Some env \<and> envelope_invariant env))))"
proof (intro conjI impI)
  show "\<exists>data. getAllCharacters net page limit = Inr data"
    by (simp add: getAllCharacters_def Let_def split: sum.splits)
next
  assume f: "network_failure (characters_endpoint net page limit)"
  have "1 \<le> page \<and> 1 \<le> limit \<longrightarrow>
          length (slice mockCharacters ((page - 1) * limit) ((page - 1) * limit + limit)) \<le> nat limit
        \<and> (\<exists>t. Math_ceil_div 6 limit = Finite t \<and> 1 \<le> t)
        \<and> (well_formed_envelope (getAllCharacters net page limit)
              \<longleftrightarrow> page \<le> \<lceil>6 / real_of_int limit\<rceil>)"
  proof (intro impI conjI)
    assume h: "1 \<le> page \<and> 1 \<le> limit"
    then have "0 \<le> (page - 1) * limit" by simp
    then show "length (slice mockCharacters ((page - 1) * limit) ((page - 1) * limit + limit)) \<le> nat limit"
      using h slice_take_drop [of "(page - 1) * limit" "(page - 1) * limit + limit" mockCharacters]
      by simp
    have "0 < - (- 6 div limit)"
      using h by (simp add: pos_imp_zdiv_neg_iff)
    then show "\<exists>t. Math_ceil_div 6 limit = Finite t \<and> 1 \<le> t"
      using h by (simp add: Math_ceil_div_def)
    show "well_formed_envelope (getAllCharacters net page limit)
              \<longleftrightarrow> page \<le> \<lceil>6 / real_of_int limit\<rceil>"
      using well_formed_fallback [OF f] h by simp
  qed
  then show "\<exists>env. getAllCharacters net page limit = Inr (Some env)
           \<and> items env = slice mockCharacters ((page - 1) * limit) ((page - 1) * limit + limit)
           \<and> totalItems (meta env) = 6
           \<and> itemCount (meta env) = int (length (items env))
           \<and> itemsPerPage (meta env) = limit
           \<and> totalPages (meta env) = Math_ceil_div 6 limit
           \<and> currentPage (meta env) = page
           \<and> (1 \<le> page \<and> 1 \<le> limit \<longrightarrow>
                length (items env) \<le> nat limit
              \<and> (\<exists>t. totalPages (meta env) = Finite t \<and> 1 \<le> t)
              \<and> (well_formed_envelope (getAllCharacters net page limit)
                    \<longleftrightarrow> page \<le> \<lceil>6 / real_of_int limit\<rceil>))"
    using f by (simp add: getAllCharacters_failure length_mockCharacters)
next
  assume "\<not> network_failure (characters_endpoint net page limit)"
  then obtain status data where s: "ok status"
    "characters_endpoint net page limit = Response status (Parsed data)"
    using network_success by blast
  then have g: "getAllCharacters net page limit = Inr data"
    by (rule getAllCharacters_ok)
  have "well_formed_envelope (Inr data) \<longleftrightarrow> (\<exists>env. data = Some env \<and> envelope_invariant env)"
    by (cases data) (simp_all add: well_formed_envelope_def)
  with s g show "\<exists>status data. ok status
           \<and> characters_endpoint net page limit = Response status (Parsed data)
           \<and> getAllCharacters net page limit = Inr data
           \<and> (well_formed_envelope (getAllCharacters net page limit)
                 \<longleftrightarrow> (\<exists>env. data = Some env \<and> envelope_invariant env))"
    by auto
qed

theorem getAllCharacters_never_raises_witness:
  "network_failure (characters_endpoint offline 2 4)
   \<and> (\<exists>env. getAllCharacters offline 2 4 = Inr (Some env)
         \<and> items env = [frieza, cell] \<and> itemCount (meta env) = 2
         \<and> totalPages (meta env) = Finite 2)
   \<and> well_formed_envelope (getAllCharacters offline 2 4)
   \<and> \<not> network_failure (characters_endpoint (answering first_page) 1 3)
   \<and> getAllCharacters (answering first_page) 1 3 = Inr (Some first_page)
   \<and> well_formed_envelope (getAllCharacters (answering first_page) 1 3)
   \<and> \<not> network_failure (characters_endpoint answering_null 1 3)
   \<and> getAllCharacters answering_null 1 3 = Inr None"
proof -
  note inst1 = getAllCharacters_never_raises [where net = offline and page = 2 and limit = 4]
  note inst2 = getAllCharacters_never_raises
    [where net = "answering first_page" and page = 1 and limit = 3]
  note inst3 = getAllCharacters_never_raises [where net = answering_null and page = 1 and limit = 3]
  have f: "network_failure (characters_endpoint offline 2 4)"
    by (simp add: offline_def)
  have g: "\<not> network_failure (characters_endpoint (answering first_page) 1 3)"
    by (simp add: characters_endpoint_answering ok_200)
  have h: "\<not> network_failure (characters_endpoint answering_null 1 3)"
    by (simp add: answering_null_def ok_200)
  have r: "(2::int) \<le> \<lceil>6 / real_of_int 4\<rceil>"
    by simp
  from inst1 [THEN conjunct2, THEN conjunct1, THEN mp, OF f]
  obtain env where e: "getAllCharacters offline 2 4 = Inr (Some env)"
    and i: "items env = slice mockCharacters ((2 - 1) * 4) ((2 - 1) * 4 + 4)"
    and c: "itemCount (meta env) = int (length (items env))"
    and t: "totalPages (meta env) = Math_ceil_div 6 4"
    and w: "well_formed_envelope (getAllCharacters offline 2 4) \<longleftrightarrow> (2::int) \<le> \<lceil>6 / real_of_int 4\<rceil>"
    by auto
  from i have i': "items env = [frieza, cell]"
    by (simp add: slice_def mockCharacters_def)
  from t have "totalPages (meta env) = Finite 2"
    by (simp add: Math_ceil_div_def)
  with e i' c have a: "\<exists>env. getAllCharacters offline 2 4 = Inr (Some env)
         \<and> items env = [frieza, cell] \<and> itemCount (meta env) = 2
         \<and> totalPages (meta env) = Finite 2"
    by simp
  from w r have a': "well_formed_envelope (getAllCharacters offline 2 4)"
    by simp
  from inst2 [THEN conjunct2, THEN conjunct2, THEN mp, OF g]
  obtain status data where k: "characters_endpoint (answering first_page) 1 3 = Response status (Parsed data)"
    and l: "getAllCharacters (answering first_page) 1 3 = Inr data"
    and m: "well_formed_envelope (getAllCharacters (answering first_page) 1 3)
       \<longleftrightarrow> (\<exists>env. data = Some env \<and> envelope_invariant env)"
    by auto
  from k have n: "data = Some first_page"
    by (simp add: characters_endpoint_answering)
  have o: "envelope_invariant first_page"
    by (simp add: envelope_invariant_def first_page_def)
  from l n have b: "getAllCharacters (answering first_page) 1 3 = Inr (Some first_page)"
    by simp
  from m n o have b': "well_formed_envelope (getAllCharacters (answering first_page) 1 3)"
    by simp
  from inst3 [THEN conjunct2, THEN conjunct2, THEN mp, OF h]
  obtain status' data' where
    "characters_endpoint answering_null 1 3 = Response status' (Parsed data')"
    "getAllCharacters answering_null 1 3 = Inr data'"
    by auto
  then have d: "getAllCharacters answering_null 1 3 = Inr None"
    by (simp add: answering_null_def)
  show ?thesis
    by (intro conjI) (rule f a a' g b b' h d)+
qed

section \<open>The list screen's operations\<close>

text \<open>
  Claim C7. In a state of the list screen where \<open>loading\<close> is true or \<open>hasMore\<close> is false,
  \<open>loadMore\<close> issues no service call, hence no fetch, and leaves the state as it is. In
  every other state it is \<open>loadCharacters\<close> for the page after the current one with
  \<open>reset\<close> false, which issues the one call for that page with page size 12.
\<close>

theorem loadMore_guard:
  "(loading s \<or> \<not> hasMore s \<longrightarrow> loadMore net s = (s, []))
   \<and> (\<not> loading s \<and> hasMore s \<longrightarrow>
        loadMore net s = loadCharacters net (currentPage' s + 1) False s
      \<and> snd (loadMore net s) = [GetAllCharacters (currentPage' s + 1) 12])"
  by (auto simp: loadMore_def loadCharacters_def)

theorem loadMore_guard_witness:
  "loading (initial_list_state\<lparr>loading := True\<rparr>)
   \<and> loadMore offline (initial_list_state\<lparr>loading := True\<rparr>) = (initial_list_state\<lparr>loading := True\<rparr>, [])
   \<and> \<not> hasMore (initial_list_state\<lparr>hasMore := False\<rparr>)
   \<and> loadMore offline (initial_list_state\<lparr>hasMore := False\<rparr>) = (initial_list_state\<lparr>hasMore := False\<rparr>, [])
   \<and> \<not> loading initial_list_state \<and> hasMore initial_list_state
   \<and> loadMore offline initial_list_state = loadCharacters offline 2 False initial_list_state
   \<and> snd (loadMore offline initial_list_state) = [GetAllCharacters 2 12]"
proof -
  note inst1 = loadMore_guard [where net = offline and s = "initial_list_state\<lparr>loading := True\<rparr>"]
  note inst2 = loadMore_guard [where net = offline and s = "initial_list_state\<lparr>hasMore := False\<rparr>"]
  note inst3 = loadMore_guard [where net = offline and s = initial_list_state]
  have a: "loading (initial_list_state\<lparr>loading := True\<rparr>)" by simp
  have b: "\<not> hasMore (initial_list_state\<lparr>hasMore := False\<rparr>)" by simp
  have c: "\<not> loading initial_list_state" "hasMore initial_list_state"
    "currentPage' initial_list_state = 1"
    by (simp_all add: initial_list_state_def)
  from inst1 a have "loadMore offline (initial_list_state\<lparr>loading := True\<rparr>) = (initial_list_state\<lparr>loading := True\<rparr>, [])"
    by blast
  moreover from inst2 b have "loadMore offline (initial_list_state\<lparr>hasMore := False\<rparr>) = (initial_list_state\<lparr>hasMore := False\<rparr>, [])"
    by blast
  moreover from inst3 c have "loadMore offline initial_list_state = loadCharacters offline 2 False initial_list_state
      \<and> snd (loadMore offline initial_list_state) = [GetAllCharacters 2 12]"
    by (simp add: loadCharacters_def)
  ultimately show ?thesis using a b c by blast
qed

lemma handleApiError_nonempty: "handleApiError e \<noteq> []"
  by (simp add: handleApiError_def str_def)

lemma loadCharacters_as_try:
  "fst (loadCharacters net page reset s) =
     (case loadCharacters_attempt net page reset s of
        Inr t \<Rightarrow> t\<lparr>loading := False\<rparr>
      | Inl err \<Rightarrow> (loadCharacters_begin s)\<lparr>error := handleApiError err, loading := False\<rparr>)"
  by (simp add: loadCharacters_def loadCharacters_settle_def loadCharacters_attempt_def
      split: sum.splits)

lemma loadCharacters_attempt_success:
  assumes "loadCharacters_attempt net page reset s = Inr t"
  shows "\<exists>data. getAllCharacters net page 12 = Inr (Some data)
           \<and> characters t = (if reset then items data else characters s @ items data)
           \<and> error t = []"
  using assms
  by (auto simp: loadCharacters_attempt_def loadCharacters_try_def loadCharacters_begin_def Let_def
      split: sum.splits option.splits)

lemma loadCharacters_attempt_null:
  assumes "ok status" and "characters_endpoint net page 12 = Response status (Parsed None)"
  shows "loadCharacters_attempt net page reset s = Inl (null_read_error (str ''items''))"
  using assms
  by (simp add: loadCharacters_attempt_def loadCharacters_try_def getAllCharacters_ok)

lemma loadCharacters_attempt_envelope:
  assumes "ok status" and "characters_endpoint net page 12 = Response status (Parsed (Some data))"
  shows "\<exists>t. loadCharacters_attempt net page reset s = Inr t"
  using assms
  by (simp add: loadCharacters_attempt_def loadCharacters_try_def getAllCharacters_ok Let_def)

text \<open>
  Claim C8. From every state of the list screen, a load that fails, its \<^verbatim>\<open>try\<close> block
  raising an error, leaves the displayed characters as they were and sets \<open>error\<close> to the
  message that \<open>handleApiError\<close> gives for the error, which is never empty. \<open>loading\<close> is
  false at the end of every load, failed or not. A successful load with \<open>reset\<close> true,
  from any state and so from the one a failed load leaves, clears \<open>error\<close> and displays
  the items of the envelope the service returned. The same holds of the steps after the
  \<^verbatim>\<open>await\<close> for any error the awaited call may reject with.
\<close>

theorem loadCharacters_failure_keeps_list:
  "(loadCharacters_attempt net page reset s = Inl err \<longrightarrow>
        characters (fst (loadCharacters net page reset s)) = characters s
      \<and> error (fst (loadCharacters net page reset s)) = handleApiError err
      \<and> error (fst (loadCharacters net page reset s)) \<noteq> [])
   \<and> \<not> loading (fst (loadCharacters net page reset s))
   \<and> (loadCharacters_attempt net' page' True s' = Inr t \<longrightarrow>
        (\<exists>data. getAllCharacters net' page' 12 = Inr (Some data)
           \<and> characters (fst (loadCharacters net' page' True s')) = items data)
      \<and> error (fst (loadCharacters net' page' True s')) = []
      \<and> \<not> loading (fst (loadCharacters net' page' True s')))
   \<and> characters (loadCharacters_settle (Inl err) page reset (loadCharacters_begin s)) = characters s
   \<and> error (loadCharacters_settle (Inl err) page reset (loadCharacters_begin s)) = handleApiError err
   \<and> error (loadCharacters_settle (Inl err) page reset (loadCharacters_begin s)) \<noteq> []
   \<and> \<not> loading (loadCharacters_settle outcome page reset (loadCharacters_begin s))
   \<and> error (loadCharacters_settle (Inr (Some data)) page' True
               (loadCharacters_begin (loadCharacters_settle (Inl err) page reset (loadCharacters_begin s)))) = []
   \<and> characters (loadCharacters_settle (Inr (Some data)) page' True
               (loadCharacters_begin (loadCharacters_settle (Inl err) page reset (loadCharacters_begin s))))
       = items data"
proof (intro conjI impI)
  assume f: "loadCharacters_attempt net page reset s = Inl err"
  show "characters (fst (loadCharacters net page reset s)) = characters s"
    by (simp add: loadCharacters_as_try f loadCharacters_begin_def)
  show "error (fst (loadCharacters net page reset s)) = handleApiError err"
    by (simp add: loadCharacters_as_try f)
  then show "error (fst (loadCharacters net page reset s)) \<noteq> []"
    by (simp add: handleApiError_nonempty)
next
  show "\<not> loading (fst (loadCharacters net page reset s))"
    by (simp add: loadCharacters_as_try split: sum.splits)
next
  assume g: "loadCharacters_attempt net' page' True s' = Inr t"
  from loadCharacters_attempt_success [OF g]
  obtain data where d: "getAllCharacters net' page' 12 = Inr (Some data)"
    "characters t = items data" "error t = []"
    by auto
  then show "\<exists>data. getAllCharacters net' page' 12 = Inr (Some data)
           \<and> characters (fst (loadCharacters net' page' True s')) = items data"
    by (simp add: loadCharacters_as_try g)
  show "error (fst (loadCharacters net' page' True s')) = []"
    using d by (simp add: loadCharacters_as_try g)
  show "\<not> loading (fst (loadCharacters net' page' True s'))"
    by (simp add: loadCharacters_as_try g)
next
  show "characters (loadCharacters_settle (Inl err) page reset (loadCharacters_begin s)) = characters s"
    by (simp add: loadCharacters_settle_def loadCharacters_try_def loadCharacters_begin_def)
  show "error (loadCharacters_settle (Inl err) page reset (loadCharacters_begin s)) = handleApiError err"
    by (simp add: loadCharacters_settle_def loadCharacters_try_def loadCharacters_begin_def)
  then show "error (loadCharacters_settle (Inl err) page reset (loadCharacters_begin s)) \<noteq> []"
    by (simp add: handleApiError_nonempty)
  show "\<not> loading (loadCharacters_settle outcome page reset (loadCharacters_begin s))"
    by (simp add: loadCharacters_settle_def Let_def split: sum.splits)
  show "error (loadCharacters_settle (Inr (Some data)) page' True
               (loadCharacters_begin (loadCharacters_settle (Inl err) page reset (loadCharacters_begin s)))) = []"
    by (simp add: loadCharacters_settle_def loadCharacters_try_def loadCharacters_begin_def Let_def)
  show "characters (loadCharacters_settle (Inr (Some data)) page' True
               (loadCharacters_begin (loadCharacters_settle (Inl err) page reset (loadCharacters_begin s))))
       = items data"
    by (simp add: loadCharacters_settle_def loadCharacters_try_def loadCharacters_begin_def Let_def)
qed

theorem loadCharacters_failure_keeps_list_witness:
  "loadCharacters_attempt answering_null 2 False (initial_list_state\<lparr>characters := [goku]\<rparr>)
     = Inl (null_read_error (str ''items''))
   \<and> characters (fst (loadCharacters answering_null 2 False (initial_list_state\<lparr>characters := [goku]\<rparr>)))
       = [goku]
   \<and> error (fst (loadCharacters answering_null 2 False (initial_list_state\<lparr>characters := [goku]\<rparr>)))
       = str ''An unexpected error occurred. Please try again.''
   \<and> \<not> loading (fst (loadCharacters answering_null 2 False (initial_list_state\<lparr>characters := [goku]\<rparr>)))
   \<and> getAllCharacters (answering first_page) 1 12 = Inr (Some first_page)
   \<and> characters (fst (loadCharacters (answering first_page) 1 True
        (fst (loadCharacters answering_null 2 False (initial_list_state\<lparr>characters := [goku]\<rparr>)))))
       = [goku, vegeta, piccolo]
   \<and> error (fst (loadCharacters (answering first_page) 1 True
        (fst (loadCharacters answering_null 2 False (initial_list_state\<lparr>characters := [goku]\<rparr>)))))
       = []"
proof -
  define s0 where "s0 = initial_list_state\<lparr>characters := [goku]\<rparr>"
  define s1 where "s1 = fst (loadCharacters answering_null 2 False s0)"
  have n: "characters_endpoint answering_null 2 12 = Response 200 (Parsed None)"
    by (simp add: answering_null_def)
  have f: "loadCharacters_attempt answering_null 2 False s0 = Inl (null_read_error (str ''items''))"
    by (rule loadCharacters_attempt_null [OF ok_200 n])
  obtain t where g: "loadCharacters_attempt (answering first_page) 1 True s1 = Inr t"
    using loadCharacters_attempt_envelope [OF ok_200 characters_endpoint_answering] by blast
  note inst = loadCharacters_failure_keeps_list
    [where net = answering_null and page = 2 and reset = False and s = s0
       and err = "null_read_error (str ''items'')" and net' = "answering first_page"
       and page' = 1 and s' = s1 and t = t and outcome = "Inr None" and data = first_page]
  have m: "handleApiError (null_read_error (str ''items''))
      = str ''An unexpected error occurred. Please try again.''"
    by (simp add: handleApiError_def null_read_error_def str_def)
  have c: "characters s0 = [goku]"
    by (simp add: s0_def)
  have p: "getAllCharacters (answering first_page) 1 12 = Inr (Some first_page)"
    by (rule getAllCharacters_ok [OF ok_200 characters_endpoint_answering])
  have i: "items first_page = [goku, vegeta, piccolo]"
    by (simp add: first_page_def)
  from inst [THEN conjunct1, THEN mp, OF f] c m
  have a: "characters (fst (loadCharacters answering_null 2 False s0)) = [goku]"
    "error (fst (loadCharacters answering_null 2 False s0))
       = str ''An unexpected error occurred. Please try again.''"
    by simp_all
  from inst [THEN conjunct2, THEN conjunct1]
  have b: "\<not> loading (fst (loadCharacters answering_null 2 False s0))" .
  from inst [THEN conjunct2, THEN conjunct2, THEN conjunct1, THEN mp, OF g] p i
  have d: "characters (fst (loadCharacters (answering first_page) 1 True s1)) = [goku, vegeta, piccolo]"
    "error (fst (loadCharacters (answering first_page) 1 True s1)) = []"
    by auto
  show ?thesis
    using f a b p d unfolding s1_def s0_def by (intro conjI)
qed

text \<open>
  Claim C9. For every name and race, the list screen's search issues the one service call
  \<open>searchCharacters\<close> with page 1 and page size 50. When that call resolves, the displayed
  characters become the items of the response and \<open>hasMore\<close> becomes false, however many
  items there are; \<open>loading\<close> is false at the end whatever the outcome. The service call
  always resolves, so this is what every search does.
\<close>

theorem searchCharacters_view_effects:
  "snd (searchCharacters_view toLowerCase net nm rc s) = [SearchCharacters nm rc 1 50]
   \<and> fst (searchCharacters_view toLowerCase net nm rc s) =
       searchCharacters_settle (searchCharacters toLowerCase net nm rc 1 50)
         (s\<lparr>loading := True, error := []\<rparr>)
   \<and> characters (searchCharacters_settle (Inr data) (s\<lparr>loading := True, error := []\<rparr>)) = items data
   \<and> \<not> hasMore (searchCharacters_settle (Inr data) (s\<lparr>loading := True, error := []\<rparr>))
   \<and> \<not> loading (searchCharacters_settle outcome (s\<lparr>loading := True, error := []\<rparr>))
   \<and> (\<exists>env. searchCharacters toLowerCase net nm rc 1 50 = Inr env
         \<and> characters (fst (searchCharacters_view toLowerCase net nm rc s)) = items env)
   \<and> \<not> hasMore (fst (searchCharacters_view toLowerCase net nm rc s))
   \<and> \<not> loading (fst (searchCharacters_view toLowerCase net nm rc s))"
proof -
  obtain env where e: "searchCharacters toLowerCase net nm rc 1 50 = Inr env"
    using searchCharacters_total by blast
  have "\<not> loading (searchCharacters_settle outcome t)" for t
    by (simp add: searchCharacters_settle_def Let_def split: sum.splits)
  then show ?thesis
    using e by (simp add: searchCharacters_view_def searchCharacters_settle_def)
qed

theorem searchCharacters_view_effects_witness:
  "snd (searchCharacters_view ascii_lower offline (str ''goku'') [] initial_list_state)
     = [SearchCharacters (str ''goku'') [] 1 50]
   \<and> hasMore initial_list_state
   \<and> \<not> hasMore (fst (searchCharacters_view ascii_lower offline (str ''goku'') [] initial_list_state))
   \<and> \<not> loading (fst (searchCharacters_view ascii_lower offline (str ''goku'') [] initial_list_state))
   \<and> characters (fst (searchCharacters_view ascii_lower offline (str ''goku'') [] initial_list_state))
       = [goku]"
proof -
  note inst = searchCharacters_view_effects
    [where toLowerCase = ascii_lower and net = offline and nm = "str ''goku''" and rc = "[]"
       and s = initial_list_state]
  have f: "network_failure (characters_endpoint offline 1 50)"
    by (simp add: offline_def)
  from inst obtain env where e: "searchCharacters ascii_lower offline (str ''goku'') [] 1 50 = Inr env"
    and c: "characters (fst (searchCharacters_view ascii_lower offline (str ''goku'') [] initial_list_state)) = items env"
    by blast
  from e f have "items env = [goku]"
    by (auto simp: searchCharacters_failure search_goku [OF lowers_ascii_ascii_lower])
  with c have "characters (fst (searchCharacters_view ascii_lower offline (str ''goku'') [] initial_list_state)) = [goku]"
    by simp
  moreover have "hasMore initial_list_state"
    by (simp add: initial_list_state_def)
  ultimately show ?thesis using inst by blast
qed

section \<open>The detail screen's error message\<close>

text \<open>
  Claim C10. When the network call fails and no record of the bundled dataset has the
  Number read from the identifier as its \<open>id\<close>, the detail screen's load ends with
  \<open>error\<close> the generic message for an unexpected error, not the message for a character
  that is not found: the text \<open>Character not found\<close> of the raised error contains none of
  \<open>Failed to fetch\<close>, \<open>404\<close> and \<open>500\<close>.
\<close>

theorem loadCharacter_not_found_message:
  "(network_failure (character_endpoint net ident)
      \<and> (\<forall>c \<in> set mockCharacters. parseInt ident \<noteq> Integer (id' c)) \<longrightarrow>
        getCharacterById net ident = Inl (Error (str ''Character not found''))
      \<and> error (fst (loadCharacter net ident s))
          = str ''An unexpected error occurred. Please try again.''
      \<and> error (fst (loadCharacter net ident s)) \<noteq> str ''Character not found.''
      \<and> character (fst (loadCharacter net ident s)) = character s
      \<and> \<not> loading (fst (loadCharacter net ident s)))
   \<and> \<not> includes_str (str ''Character not found'') (str ''404'')
   \<and> \<not> includes_str (str ''Character not found'') (str ''500'')
   \<and> \<not> includes_str (str ''Character not found'') (str ''Failed to fetch'')"
proof (intro conjI impI)
  assume h: "network_failure (character_endpoint net ident)
      \<and> (\<forall>c \<in> set mockCharacters. parseInt ident \<noteq> Integer (id' c))"
  then have g: "getCharacterById net ident = Inl (Error (str ''Character not found''))"
    by (simp add: getCharacterById_failure find_by_id_absent)
  have m: "handleApiError (Error (str ''Character not found'')) =
      str ''An unexpected error occurred. Please try again.''"
    by (simp add: handleApiError_def str_def)
  show "getCharacterById net ident = Inl (Error (str ''Character not found''))"
    by (rule g)
  show "error (fst (loadCharacter net ident s)) = str ''An unexpected error occurred. Please try again.''"
    by (simp add: loadCharacter_def loadCharacter_settle_def g m)
  then show "error (fst (loadCharacter net ident s)) \<noteq> str ''Character not found.''"
    by (simp add: str_def)
  show "character (fst (loadCharacter net ident s)) = character s"
    by (simp add: loadCharacter_def loadCharacter_settle_def g)
  show "\<not> loading (fst (loadCharacter net ident s))"
    by (simp add: loadCharacter_def loadCharacter_settle_def g)
qed (simp_all add: str_def)

theorem loadCharacter_not_found_message_witness:
  "network_failure (character_endpoint offline (str ''999''))
   \<and> parseInt (str ''999'') = Integer 999 \<and> map id' mockCharacters = [1, 2, 3, 4, 5, 6]
   \<and> error (fst (loadCharacter offline (str ''999'') initial_detail_state))
       = str ''An unexpected error occurred. Please try again.''
   \<and> \<not> loading (fst (loadCharacter offline (str ''999'') initial_detail_state))"
proof -
  note inst = loadCharacter_not_found_message
    [where net = offline and ident = "str ''999''" and s = initial_detail_state]
  have f: "network_failure (character_endpoint offline (str ''999''))"
    by (simp add: offline_def)
  have a: "\<forall>c \<in> set mockCharacters. parseInt (str ''999'') \<noteq> Integer (id' c)"
    by (simp add: parseInt_999 mockCharacters_def)
  have i: "map id' mockCharacters = [1, 2, 3, 4, 5, 6]"
    by (simp add: mockCharacters_def)
  from inst [THEN conjunct1, THEN mp, OF conjI [OF f a]]
  have r: "error (fst (loadCharacter offline (str ''999'') initial_detail_state))
       = str ''An unexpected error occurred. Please try again.''"
    "\<not> loading (fst (loadCharacter offline (str ''999'') initial_detail_state))"
    by simp_all
  show ?thesis
    by (intro conjI) (rule f parseInt_999 i r)+
qed

section \<open>The envelope invariant on the results of the service\<close>

lemma getPlanets_failure:
  assumes "network_failure (planets_endpoint net)"
  shows "getPlanets net =
           Inr (Some \<lparr>items = mockPlanets,
                meta = \<lparr>totalItems = int (length mockPlanets),
                         itemCount = int (length mockPlanets),
                         itemsPerPage = 10, totalPages = Finite 1, currentPage = 1\<rparr>\<rparr>)"
proof -
  obtain e where "fetch_json (planets_endpoint net) = Inl e"
    using fetch_json_failure [OF assms] by blast
  then show ?thesis
    by (simp add: getPlanets_def)
qed

lemma getPlanets_ok:
  assumes "ok status" and "planets_endpoint net = Response status (Parsed data)"
  shows "getPlanets net = Inr data"
  using assms by (simp add: getPlanets_def fetch_json_success)

lemma envelope_invariant_first_page: "envelope_invariant first_page"
  by (simp add: envelope_invariant_def first_page_def)

text \<open>
  The invariant does not hold of every envelope the service returns. Under network
  failure, page 2 of page size 12 lies beyond the one page of the six bundled records:
  the envelope has \<open>totalItems = 6\<close>, \<open>totalPages = 1\<close> and \<open>currentPage = 2\<close>, from
  \<open>getAllCharacters\<close> and from \<open>searchCharacters\<close> alike. On network success,
  \<open>searchCharacters\<close> keeps the \<open>meta\<close> of the fetched envelope, so \<open>itemCount\<close> is still
  the size of the fetched page after a filter has removed items; the query \<open>goku\<close> and
  the names it meets are ASCII, on which the case mapping of the runtime is \<open>ascii_lower\<close>.
\<close>

theorem envelope_invariant_counterexample:
  "getAllCharacters offline 2 12 =
     Inr (Some \<lparr>items = [],
          meta = \<lparr>totalItems = 6, itemCount = 0, itemsPerPage = 12, totalPages = Finite 1,
                   currentPage = 2\<rparr>\<rparr>)
   \<and> \<not> envelope_invariant
        \<lparr>items = ([] :: character list),
         meta = \<lparr>totalItems = 6, itemCount = 0, itemsPerPage = 12, totalPages = Finite 1,
                  currentPage = 2\<rparr>\<rparr>
   \<and> searchCharacters ascii_lower offline [] [] 2 12 =
     Inr \<lparr>items = mockCharacters,
          meta = \<lparr>totalItems = 6, itemCount = 6, itemsPerPage = 12, totalPages = Finite 1,
                   currentPage = 2\<rparr>\<rparr>
   \<and> \<not> envelope_invariant
        \<lparr>items = mockCharacters,
         meta = \<lparr>totalItems = 6, itemCount = 6, itemsPerPage = 12, totalPages = Finite 1,
                  currentPage = 2\<rparr>\<rparr>
   \<and> envelope_invariant first_page
   \<and> searchCharacters ascii_lower (answering first_page) (str ''goku'') [] 1 3
       = Inr (first_page\<lparr>items := [goku]\<rparr>)
   \<and> \<not> envelope_invariant (first_page\<lparr>items := [goku]\<rparr>)"
proof (intro conjI)
  have f: "network_failure (characters_endpoint offline 2 12)"
    by (simp add: offline_def)
  show "getAllCharacters offline 2 12 =
     Inr (Some \<lparr>items = [],
          meta = \<lparr>totalItems = 6, itemCount = 0, itemsPerPage = 12, totalPages = Finite 1,
                   currentPage = 2\<rparr>\<rparr>)"
    by (simp add: getAllCharacters_failure [OF f] slice_def length_mockCharacters Math_ceil_div_def)
  show "searchCharacters ascii_lower offline [] [] 2 12 =
     Inr \<lparr>items = mockCharacters,
          meta = \<lparr>totalItems = 6, itemCount = 6, itemsPerPage = 12, totalPages = Finite 1,
                   currentPage = 2\<rparr>\<rparr>"
    by (simp add: searchCharacters_failure [OF f] filter_by_name_def filter_by_race_def
        length_mockCharacters)
  show "\<not> envelope_invariant
        \<lparr>items = ([] :: character list),
         meta = \<lparr>totalItems = 6, itemCount = 0, itemsPerPage = 12, totalPages = Finite 1,
                  currentPage = 2\<rparr>\<rparr>"
    by (simp add: envelope_invariant_def)
  show "\<not> envelope_invariant
        \<lparr>items = mockCharacters,
         meta = \<lparr>totalItems = 6, itemCount = 6, itemsPerPage = 12, totalPages = Finite 1,
                  currentPage = 2\<rparr>\<rparr>"
    by (simp add: envelope_invariant_def)
  show "envelope_invariant first_page"
    by (rule envelope_invariant_first_page)
  show "searchCharacters ascii_lower (answering first_page) (str ''goku'') [] 1 3
      = Inr (first_page\<lparr>items := [goku]\<rparr>)"
    by (simp add: searchCharacters_ok [OF ok_200 characters_endpoint_answering]
        filter_by_name_def filter_by_race_def first_page_def str_def ascii_lower_def)
  show "\<not> envelope_invariant (first_page\<lparr>items := [goku]\<rparr>)"
    by (simp add: envelope_invariant_def first_page_def)
qed

text \<open>
  Claim C1, as amended. Every envelope made on a fallback path has \<open>itemCount\<close> equal to
  the length of its items, and its \<open>currentPage\<close> is the page asked for. So the fallback
  envelope of \<open>getAllCharacters\<close>, for a page size \<open>\<ge> 1\<close>, satisfies the invariant exactly
  when the page asked for lies between 1 and \<open>totalPages\<close>, the ceiling of 6 over the page
  size; the fallback envelope of \<open>searchCharacters\<close> exactly when it is empty or the page
  asked for is 1; the fallback envelope of \<open>getPlanets\<close> always. On network success
  \<open>getAllCharacters\<close> and \<open>getPlanets\<close> return the envelope of the remote as it is, which
  therefore satisfies the invariant exactly when the remote's envelope does.
\<close>

theorem fallback_envelope_invariant:
  "(network_failure (characters_endpoint net page limit) \<longrightarrow>
      (\<exists>env. getAllCharacters net page limit = Inr (Some env)
         \<and> itemCount (meta env) = int (length (items env))
         \<and> currentPage (meta env) = page
         \<and> (1 \<le> limit \<longrightarrow>
              (envelope_invariant env \<longleftrightarrow> 1 \<le> page \<and> page \<le> \<lceil>6 / real_of_int limit\<rceil>))))
   \<and> (network_failure (characters_endpoint net page limit) \<longrightarrow>
      (\<exists>env. searchCharacters toLowerCase net nm rc page limit = Inr env
         \<and> itemCount (meta env) = int (length (items env))
         \<and> currentPage (meta env) = page
         \<and> (envelope_invariant env \<longleftrightarrow> items env = [] \<or> page = 1)))
   \<and> (network_failure (planets_endpoint net) \<longrightarrow>
      (\<exists>env. getPlanets net = Inr (Some env) \<and> envelope_invariant env))
   \<and> (ok status \<and> characters_endpoint net page limit = Response status (Parsed data) \<longrightarrow>
        getAllCharacters net page limit = Inr data)
   \<and> (ok status \<and> planets_endpoint net = Response status (Parsed pdata) \<longrightarrow>
        getPlanets net = Inr pdata)"
proof (intro conjI impI)
  assume f: "network_failure (characters_endpoint net page limit)"
  have "1 \<le> limit \<longrightarrow>
      (in_page_range page (Math_ceil_div 6 limit) \<longleftrightarrow> 1 \<le> page \<and> page \<le> \<lceil>6 / real_of_int limit\<rceil>)"
    using Math_ceil_div_ceiling [of limit 6] by auto
  then show "\<exists>env. getAllCharacters net page limit = Inr (Some env)
         \<and> itemCount (meta env) = int (length (items env))
         \<and> currentPage (meta env) = page
         \<and> (1 \<le> limit \<longrightarrow>
              (envelope_invariant env \<longleftrightarrow> 1 \<le> page \<and> page \<le> \<lceil>6 / real_of_int limit\<rceil>))"
    by (simp add: getAllCharacters_failure [OF f] envelope_invariant_def length_mockCharacters)
next
  assume f: "network_failure (characters_endpoint net page limit)"
  show "\<exists>env. searchCharacters toLowerCase net nm rc page limit = Inr env
         \<and> itemCount (meta env) = int (length (items env))
         \<and> currentPage (meta env) = page
         \<and> (envelope_invariant env \<longleftrightarrow> items env = [] \<or> page = 1)"
    by (auto simp: searchCharacters_failure [OF f] envelope_invariant_def)
next
  assume "network_failure (planets_endpoint net)"
  then show "\<exists>env. getPlanets net = Inr (Some env) \<and> envelope_invariant env"
    by (simp add: getPlanets_failure envelope_invariant_def mockPlanets_def)
next
  assume "ok status \<and> characters_endpoint net page limit = Response status (Parsed data)"
  then show "getAllCharacters net page limit = Inr data"
    using getAllCharacters_ok by blast
next
  assume "ok status \<and> planets_endpoint net = Response status (Parsed pdata)"
  then show "getPlanets net = Inr pdata"
    using getPlanets_ok by blast
qed

theorem fallback_envelope_invariant_witness:
  "network_failure (characters_endpoint offline 2 4)
   \<and> network_failure (planets_endpoint offline)
   \<and> (\<exists>env. getAllCharacters offline 2 4 = Inr (Some env) \<and> envelope_invariant env)
   \<and> (\<exists>env. searchCharacters ascii_lower offline (str ''goku'') [] 1 4 = Inr env
         \<and> envelope_invariant env)
   \<and> (\<exists>env. getPlanets offline = Inr (Some env) \<and> envelope_invariant env)
   \<and> ok 200
   \<and> characters_endpoint online 1 3 = Response 200 (Parsed (Some first_page))
   \<and> planets_endpoint online = Response 200 (Parsed (Some planets_page))
   \<and> getAllCharacters online 1 3 = Inr (Some first_page)
   \<and> getPlanets online = Inr (Some planets_page)"
proof -
  note inst1 = fallback_envelope_invariant
    [where net = offline and page = 2 and limit = 4 and toLowerCase = ascii_lower
       and nm = "str ''goku''" and rc = "[]"
       and status = 200 and data = "Some first_page" and pdata = "Some planets_page"]
  note inst2 = fallback_envelope_invariant
    [where net = offline and page = 1 and limit = 4 and toLowerCase = ascii_lower
       and nm = "str ''goku''" and rc = "[]"
       and status = 200 and data = "Some first_page" and pdata = "Some planets_page"]
  note inst3 = fallback_envelope_invariant
    [where net = online and page = 1 and limit = 3 and toLowerCase = ascii_lower
       and nm = "[]" and rc = "[]"
       and status = 200 and data = "Some first_page" and pdata = "Some planets_page"]
  have f: "network_failure (characters_endpoint offline p l)" for p l
    by (simp add: offline_def)
  have g: "network_failure (planets_endpoint offline)"
    by (simp add: offline_def)
  have c: "characters_endpoint online 1 3 = Response 200 (Parsed (Some first_page))"
    "planets_endpoint online = Response 200 (Parsed (Some planets_page))"
    by (simp_all add: online_def)
  have r: "(2::int) \<le> \<lceil>6 / real_of_int 4\<rceil>"
    by simp
  from inst1 [THEN conjunct1, THEN mp, OF f] r
  have a1: "\<exists>env. getAllCharacters offline 2 4 = Inr (Some env) \<and> envelope_invariant env"
    by auto
  from inst2 [THEN conjunct2, THEN conjunct1, THEN mp, OF f]
  have a2: "\<exists>env. searchCharacters ascii_lower offline (str ''goku'') [] 1 4 = Inr env
      \<and> envelope_invariant env"
    by auto
  note a3 = inst1 [THEN conjunct2, THEN conjunct2, THEN conjunct1, THEN mp, OF g]
  note a4 = inst3 [THEN conjunct2, THEN conjunct2, THEN conjunct2, THEN conjunct1, THEN mp,
      OF conjI [OF ok_200 c(1)]]
  note a5 = inst3 [THEN conjunct2, THEN conjunct2, THEN conjunct2, THEN conjunct2, THEN mp,
      OF conjI [OF ok_200 c(2)]]
  show ?thesis
    by (intro conjI) (rule f g a1 a2 a3 ok_200 c a4 a5)+
qed

end
